theory Spec2Isabelle
  imports Complex_Main "HOL-Library.Sublist"
begin

section \<open>JavaScript strings and values\<close>

text \<open>
  Strings are lists of code units; the model covers texts whose code units are ASCII, which
  is where \<open>toLowerCase\<close>, \<open>trim\<close> and the regular expressions of the sources are
  modelled exactly. \<open>undefined\<close> is \<open>None\<close> of an option type; a function that returns
  \<open>null\<close> returns \<open>Null\<close> of the type \<open>nullable\<close>.
\<close>

datatype 'a nullable = Null | Value 'a

datatype js_error = TypeError | SyntaxError | Error string

definition NL :: char where
  "NL = CHR 0x0A"

definition isSpace :: "char \<Rightarrow> bool" where
  \<comment> \<open>the ASCII members of the regular expression class \<open>\s\<close>, which \<open>trim\<close> strips too\<close>
  "isSpace c = (c \<in> set [CHR 0x20, CHR 0x09, CHR 0x0A, CHR 0x0B, CHR 0x0C, CHR 0x0D])"

definition isDigit :: "char \<Rightarrow> bool" where
  "isDigit c = (c \<in> set ''0123456789'')"

definition lowerChar :: "char \<Rightarrow> char" where
  "lowerChar c =
     (case map_of (zip ''ABCDEFGHIJKLMNOPQRSTUVWXYZ'' ''abcdefghijklmnopqrstuvwxyz'') c of
        Some d \<Rightarrow> d
      | None \<Rightarrow> c)"

definition toLowerCase :: "string \<Rightarrow> string" where
  "toLowerCase s = map lowerChar s"

definition trim :: "string \<Rightarrow> string" where
  "trim s = rev (dropWhile isSpace (rev (dropWhile isSpace s)))"

fun startsWith :: "string \<Rightarrow> string \<Rightarrow> bool" where
  "startsWith s [] = True"
| "startsWith [] (c # cs) = False"
| "startsWith (x # xs) (c # cs) = (x = c \<and> startsWith xs cs)"

fun includesStr :: "string \<Rightarrow> string \<Rightarrow> bool" where
  "includesStr [] t = (t = [])"
| "includesStr (x # xs) t = (startsWith (x # xs) t \<or> includesStr xs t)"

text \<open>
  \<open>s.split(re)\<close> for a regular expression \<open>re\<close> that matches the non-empty runs of the
  characters satisfying \<open>P\<close> (\<open>/\s+/\<close>, \<open>/[.!?]+/\<close>): the pieces between the runs, an
  empty piece before a leading run and after a trailing one.
\<close>

function splitRuns :: "(char \<Rightarrow> bool) \<Rightarrow> string \<Rightarrow> string \<Rightarrow> string list" where
  "splitRuns P acc [] = [rev acc]"
| "splitRuns P acc (c # cs) =
     (if P c then rev acc # splitRuns P [] (dropWhile P cs)
      else splitRuns P (c # acc) cs)"
  by pat_completeness auto
termination
  by (relation "measure (\<lambda>(P, acc, s). length s)")
     (auto simp: length_dropWhile_le less_Suc_eq_le)

text \<open>\<open>s.split('\n\n')\<close>: the separator is matched left to right, without overlap.\<close>

fun splitBlank :: "string \<Rightarrow> string \<Rightarrow> string list" where
  "splitBlank acc [] = [rev acc]"
| "splitBlank acc [c] = [rev (c # acc)]"
| "splitBlank acc (c # d # cs) =
     (if c = NL \<and> d = NL then rev acc # splitBlank [] cs
      else splitBlank (c # acc) (d # cs))"

fun joinWith :: "string \<Rightarrow> string list \<Rightarrow> string" where
  "joinWith sep [] = []"
| "joinWith sep [x] = x"
| "joinWith sep (x # y # ys) = x @ sep @ joinWith sep (y # ys)"

text \<open>
  The remainder operator \<open>%\<close> on integer-valued numbers truncates towards zero and takes
  the sign of the dividend; by zero it is \<open>NaN\<close>, here \<open>None\<close>.
\<close>

definition jsRem :: "int \<Rightarrow> int \<Rightarrow> int option" where
  "jsRem a b = (if b = 0 then None else Some (sgn a * (\<bar>a\<bar> mod \<bar>b\<bar>)))"

text \<open>\<open>xs[i]\<close>: \<open>undefined\<close> outside the array, and for the index \<open>NaN\<close>.\<close>

definition jsIndex :: "'a list \<Rightarrow> int option \<Rightarrow> 'a option" where
  "jsIndex xs i =
     (case i of
        None \<Rightarrow> None
      | Some j \<Rightarrow> if 0 \<le> j \<and> j < int (length xs) then Some (xs ! nat j) else None)"

text \<open>A value interpolated into a template literal.\<close>

definition interpolate :: "string option \<Rightarrow> string" where
  "interpolate v = (case v of None \<Rightarrow> ''undefined'' | Some s \<Rightarrow> s)"

text \<open>
  \<open>Math.random()\<close> is a source of draws: the \<open>k\<close>-th call returns \<open>rnd k\<close>, and every
  function that draws takes the position of the next draw and returns the position after
  its last one. \<open>Math.floor(Math.random() * n)\<close> is \<open>randomIndex\<close>.
\<close>

type_synonym rng = "nat \<Rightarrow> real"

definition randomIndex :: "rng \<Rightarrow> nat \<Rightarrow> nat \<Rightarrow> int" where
  "randomIndex rnd k n = \<lfloor>rnd k * real n\<rfloor>"

section \<open>site-config.js\<close>

record book_config =
  title :: string
  url :: string

record site_config =
  name :: string
  resumeJsonPath :: "string option"
  highlightsPath :: "string option"
  manuscriptPath :: "string option"
  book :: "book_config option"
  useBookPromos :: bool
  useFunnyQuips :: bool
  gracefulDegradation :: bool

record sample_content =
  funnyQuips :: "string list"
  bookPromos :: "string list"

section \<open>context.js: promotional asides and quips\<close>

text \<open>
  \<open>s.replace(pat, rep)\<close> with a string pattern replaces the first occurrence. The
  replacement is taken literally, as JavaScript does when it holds no \<open>$\<close>.
\<close>

fun replaceFirst :: "string \<Rightarrow> string \<Rightarrow> string \<Rightarrow> string" where
  "replaceFirst pat rep [] = (if pat = [] then rep else [])"
| "replaceFirst pat rep (x # xs) =
     (if startsWith (x # xs) pat then rep @ drop (length pat) (x # xs)
      else x # replaceFirst pat rep xs)"

definition generateBookPromos :: "site_config \<Rightarrow> sample_content \<Rightarrow> string list" where
  "generateBookPromos cfg sample =
     (case book cfg of
        None \<Rightarrow> []
      | Some b \<Rightarrow>
          if \<not> useBookPromos cfg then []
          else map (\<lambda>promo. replaceFirst ''{BOOK_URL}'' (url b)
                                (replaceFirst ''{BOOK_TITLE}'' (title b) promo))
                   (bookPromos sample))"

definition BOOK_PROMOS :: "site_config \<Rightarrow> sample_content \<Rightarrow> string list" where
  "BOOK_PROMOS cfg sample = generateBookPromos cfg sample"

definition FUNNY_QUIPS :: "site_config \<Rightarrow> sample_content \<Rightarrow> string list" where
  "FUNNY_QUIPS cfg sample = (if useFunnyQuips cfg then funnyQuips sample else [])"

record sel_options =
  seed :: "int option"
  randomize :: "bool option"

definition noOptions :: sel_options where
  "noOptions = \<lparr>seed = None, randomize = None\<rparr>"

definition isDeterministic :: "sel_options \<Rightarrow> bool" where
  \<comment> \<open>\<open>options.seed !== undefined || options.randomize === false\<close>\<close>
  "isDeterministic opts = (seed opts \<noteq> None \<or> randomize opts = Some False)"

definition seedOf :: "sel_options \<Rightarrow> int" where
  \<comment> \<open>\<open>options.seed || 0\<close>\<close>
  "seedOf opts = (case seed opts of None \<Rightarrow> 0 | Some s \<Rightarrow> s)"

definition selectRandomPromo ::
  "string list \<Rightarrow> sel_options \<Rightarrow> rng \<Rightarrow> nat \<Rightarrow> string option \<times> nat" where
  "selectRandomPromo promos opts rnd k =
     (if isDeterministic opts
      then (jsIndex promos (jsRem (seedOf opts) (int (length promos))), k)
      else (jsIndex promos (Some (randomIndex rnd k (length promos))), Suc k))"

definition selectRandomQuip ::
  "string list \<Rightarrow> sel_options \<Rightarrow> rng \<Rightarrow> nat \<Rightarrow> string option \<times> nat" where
  "selectRandomQuip quips opts rnd k =
     (if isDeterministic opts
      then (jsIndex quips (jsRem (seedOf opts) (int (length quips))), k)
      else (jsIndex quips (Some (randomIndex rnd k (length quips))), Suc k))"

section \<open>context.js: highlight selection\<close>

record highlight =
  hl_text :: string

record book_entry =
  book_title :: string
  book_author :: string
  highlights :: "highlight list option"

record highlights_data =
  books :: "book_entry list option"

record selected_highlight =
  sel_text :: string
  bookTitle :: string
  author :: string

definition allHighlights :: "book_entry list \<Rightarrow> selected_highlight list" where
  "allHighlights bs =
     concat (map (\<lambda>b. case highlights b of
                          None \<Rightarrow> []
                        | Some hs \<Rightarrow>
                            map (\<lambda>h. \<lparr>sel_text = hl_text h, bookTitle = book_title b,
                                      author = book_author b\<rparr>) hs) bs)"

text \<open>
  Every element pushed to \<open>allHighlights\<close> is a fresh object, and the seeded loop compares
  objects with \<open>===\<close>, by identity. An object is therefore its position in
  \<open>allHighlights\<close> paired with its fields: two objects are identical when the pairs are
  equal.
\<close>

type_synonym highlight_object = "nat \<times> selected_highlight"

definition highlightObjects :: "book_entry list \<Rightarrow> highlight_object list" where
  "highlightObjects bs = enumerate 0 (allHighlights bs)"

text \<open>
  The seeded loop. \<open>selected.find(h => h === x)\<close> is falsy when no element is identical
  to \<open>x\<close>, and also when \<open>x\<close> is \<open>undefined\<close> (the element found is falsy).
\<close>

function seededLoop ::
  "int \<Rightarrow> 'a list \<Rightarrow> nat \<Rightarrow> nat \<Rightarrow> 'a option list \<Rightarrow> 'a option list" where
  "seededLoop sd allH count i selected =
     (if i < count then
        (let index = jsRem (sd + int i * 17) (int (length allH));
             x = jsIndex allH index
         in if x = None \<or> x \<notin> set selected
            then seededLoop sd allH count (Suc i) (selected @ [x])
            else seededLoop sd allH count (Suc i) selected)
      else selected)"
  by pat_completeness auto
termination
  by (relation "measure (\<lambda>(sd, allH, count, i, selected). count - i)") auto

declare seededLoop.simps [simp del]

text \<open>
  The random loop draws until three distinct indices (or as many as there are highlights)
  are found; it need not end, and not returning is the value \<open>None\<close>.
\<close>

partial_function (option) randomLoop ::
  "'a list \<Rightarrow> rng \<Rightarrow> nat \<Rightarrow> 'a option list \<Rightarrow> int list \<Rightarrow> ('a option list \<times> nat) option" where
  "randomLoop allH rnd k selected usedIndices =
     (if length selected < 3 \<and> length selected < length allH then
        (let r = randomIndex rnd k (length allH)
         in if r \<notin> set usedIndices
            then randomLoop allH rnd (Suc k) (selected @ [jsIndex allH (Some r)]) (r # usedIndices)
            else randomLoop allH rnd (Suc k) selected usedIndices)
      else Some (selected, k))"

definition selectRandomHighlights ::
  "highlights_data nullable \<Rightarrow> sel_options \<Rightarrow> rng \<Rightarrow> nat
   \<Rightarrow> (highlight_object option list nullable \<times> nat) option" where
  "selectRandomHighlights highlightsData opts rnd k =
     (case highlightsData of
        Null \<Rightarrow> Some (Null, k)
      | Value d \<Rightarrow>
          (case books d of
             None \<Rightarrow> Some (Null, k)
           | Some bs \<Rightarrow>
               (let allH = highlightObjects bs
                in if length allH < 1 then Some (Null, k)
                   else if isDeterministic opts
                   then Some (Value (seededLoop (seedOf opts) allH (min 3 (length allH)) 0 []), k)
                   else map_option (\<lambda>(selected, k'). (Value selected, k'))
                          (randomLoop allH rnd k [] []))))"

section \<open>context.js: manuscript excerpt selection\<close>


definition qualifies :: "string \<Rightarrow> bool" where
  "qualifies p =
     (length p > 100
      \<and> \<not> startsWith p ''Chapter ''
      \<and> \<not> startsWith p ''Copyright''
      \<and> \<not> startsWith p ''ISBN''
      \<and> \<not> (p \<noteq> [] \<and> list_all (\<lambda>c. isDigit c \<or> isSpace c) p)
      \<and> \<not> startsWith p ''Robo-Excerpt''
      \<and> \<not> includesStr p ''[ ||| ]'')"

definition manuscriptParagraphs :: "string \<Rightarrow> string list" where
  "manuscriptParagraphs manuscriptData =
     filter qualifies (map trim (splitBlank [] manuscriptData))"

definition isTerminator :: "char \<Rightarrow> bool" where
  "isTerminator c = (c \<in> set ''.!?'')"

definition sentencesOf :: "string \<Rightarrow> string list" where
  \<comment> \<open>\<open>chunk.split(/[.!?]+/)\<close>\<close>
  "sentencesOf chunk = splitRuns isTerminator [] chunk"

text \<open>
  \<open>Math.min(3, Math.max(1, Math.floor(n * 0.4)))\<close>. The product is a double; its floor
  is that of the exact product for every \<open>n\<close> below eight, and is at least three from
  eight on, so the exact product gives the same number.
\<close>

definition numSentences :: "nat \<Rightarrow> nat" where
  "numSentences n = min 3 (max 1 (nat \<lfloor>real n * 0.4\<rfloor>))"

definition truncateChunk :: "string \<Rightarrow> string" where
  "truncateChunk chunk =
     trim (if length chunk > 300
           then joinWith ''.'' (take (numSentences (length (sentencesOf chunk)))
                                  (sentencesOf chunk)) @ ''.''
           else chunk)"

text \<open>
  The paragraph \<open>paragraphs[selectedIndex]\<close>; \<open>undefined\<close> when the index is outside the
  list (a negative seed).
\<close>

definition selectParagraph ::
  "string list \<Rightarrow> sel_options \<Rightarrow> rng \<Rightarrow> nat \<Rightarrow> string option \<times> nat" where
  "selectParagraph paragraphs opts rnd k =
     (if isDeterministic opts
      then (jsIndex paragraphs (jsRem (seedOf opts) (int (length paragraphs))), k)
      else (jsIndex paragraphs (Some (randomIndex rnd k (length paragraphs))), Suc k))"

text \<open>
  \<open>selectRandomManuscriptChunk\<close>. Reading \<open>chunk.length\<close> of \<open>undefined\<close> throws a
  \<open>TypeError\<close>.
\<close>

definition selectRandomManuscriptChunk ::
  "string nullable \<Rightarrow> sel_options \<Rightarrow> rng \<Rightarrow> nat \<Rightarrow> js_error + (string nullable \<times> nat)" where
  "selectRandomManuscriptChunk manuscriptData opts rnd k =
     (case manuscriptData of
        Null \<Rightarrow> Inr (Null, k)
      | Value m \<Rightarrow>
          if m = [] then Inr (Null, k)
          else if manuscriptParagraphs m = [] then Inr (Null, k)
          else (case selectParagraph (manuscriptParagraphs m) opts rnd k of
                  (None, k') \<Rightarrow> Inl TypeError
                | (Some chunk, k') \<Rightarrow> Inr (Value (truncateChunk chunk), k')))"

section \<open>context.js: the data loader\<close>

text \<open>
  What \<open>fetch\<close> does is an input of the model: the promise rejects, or it resolves to a
  response with its \<open>ok\<close> flag, its status text and what reading the body gives
  (\<open>Inl\<close> when \<open>json()\<close> or \<open>text()\<close> rejects). A parsed JSON document is an object
  (\<open>Value\<close>) or \<open>null\<close>. Each loader returns the outcome of its promise (\<open>Inl\<close> when
  it rejects), and with a fulfilled promise the loader with its cache and the warnings
  written to the console.
\<close>

record 'a response =
  ok :: bool
  statusText :: string
  body :: "js_error + 'a"

datatype 'a fetched = Rejected js_error | Responded "'a response"

record ('r, 'h) data_loader =
  resumeData :: "'r nullable"
  highlightsData :: "'h nullable"
  manuscriptData :: "string nullable"

definition describe :: "js_error \<Rightarrow> string" where
  "describe e =
     (case e of
        TypeError \<Rightarrow> ''TypeError''
      | SyntaxError \<Rightarrow> ''SyntaxError''
      | Error msg \<Rightarrow> ''Error: '' @ msg)"

definition truthyText :: "string nullable \<Rightarrow> bool" where
  "truthyText t = (case t of Null \<Rightarrow> False | Value s \<Rightarrow> s \<noteq> [])"

text \<open>The body of the \<open>try\<close> block of \<open>loadResumeData\<close>: \<open>Inl\<close> is the error it throws.\<close>

definition fetchResume ::
  "site_config \<Rightarrow> string \<Rightarrow> 'r nullable fetched \<Rightarrow> ('r, 'h) data_loader
   \<Rightarrow> js_error + ('r nullable \<times> ('r, 'h) data_loader \<times> string list)" where
  "fetchResume cfg path fetchResult dl =
     (case fetchResult of
        Rejected e \<Rightarrow> Inl e
      | Responded r \<Rightarrow>
          if \<not> ok r then
            (if gracefulDegradation cfg
             then Inr (Null, dl, [''Resume not found at '' @ path @ '', continuing without it''])
             else Inl (Error (''Failed to fetch resume: '' @ statusText r)))
          else (case body r of
                  Inl e \<Rightarrow> Inl e
                | Inr v \<Rightarrow> Inr (v, dl\<lparr>resumeData := v\<rparr>, [])))"

text \<open>\<open>DataLoader.loadResumeData\<close>: the cache, the path, the \<open>try\<close> block and its \<open>catch\<close>.\<close>

definition loadResumeData ::
  "site_config \<Rightarrow> 'r nullable fetched \<Rightarrow> ('r, 'h) data_loader
   \<Rightarrow> js_error + ('r nullable \<times> ('r, 'h) data_loader \<times> string list)" where
  "loadResumeData cfg fetchResult dl =
     (if resumeData dl \<noteq> Null then Inr (resumeData dl, dl, [])
      else (case resumeJsonPath cfg of
              None \<Rightarrow> Inr (Null, dl, [])
            | Some path \<Rightarrow>
                if path = [] then Inr (Null, dl, [])
                else (case fetchResume cfg path fetchResult dl of
                        Inr result \<Rightarrow> Inr result
                      | Inl error \<Rightarrow>
                          Inr (Null, dl, [''Could not load resume data: '' @ describe error]))))"

definition fetchHighlights ::
  "site_config \<Rightarrow> string \<Rightarrow> 'h nullable fetched \<Rightarrow> ('r, 'h) data_loader
   \<Rightarrow> js_error + ('h nullable \<times> ('r, 'h) data_loader \<times> string list)" where
  "fetchHighlights cfg path fetchResult dl =
     (case fetchResult of
        Rejected e \<Rightarrow> Inl e
      | Responded r \<Rightarrow>
          if \<not> ok r then
            (if gracefulDegradation cfg
             then Inr (Null, dl, [''Highlights not found at '' @ path
                                  @ '', continuing without them''])
             else Inl (Error (''Failed to fetch highlights: '' @ statusText r)))
          else (case body r of
                  Inl e \<Rightarrow> Inl e
                | Inr v \<Rightarrow> Inr (v, dl\<lparr>highlightsData := v\<rparr>, [])))"

definition loadHighlightsData ::
  "site_config \<Rightarrow> 'h nullable fetched \<Rightarrow> ('r, 'h) data_loader
   \<Rightarrow> js_error + ('h nullable \<times> ('r, 'h) data_loader \<times> string list)" where
  "loadHighlightsData cfg fetchResult dl =
     (if highlightsData dl \<noteq> Null then Inr (highlightsData dl, dl, [])
      else (case highlightsPath cfg of
              None \<Rightarrow> Inr (Null, dl, [])
            | Some path \<Rightarrow>
                if path = [] then Inr (Null, dl, [])
                else (case fetchHighlights cfg path fetchResult dl of
                        Inr result \<Rightarrow> Inr result
                      | Inl error \<Rightarrow>
                          Inr (Null, dl, [''Could not load highlights data: ''
                                          @ describe error]))))"

definition fetchManuscript ::
  "site_config \<Rightarrow> string \<Rightarrow> string fetched \<Rightarrow> ('r, 'h) data_loader
   \<Rightarrow> js_error + (string nullable \<times> ('r, 'h) data_loader \<times> string list)" where
  "fetchManuscript cfg path fetchResult dl =
     (case fetchResult of
        Rejected e \<Rightarrow> Inl e
      | Responded r \<Rightarrow>
          if \<not> ok r then
            (if gracefulDegradation cfg
             then Inr (Null, dl, [''Manuscript not found at '' @ path
                                  @ '', continuing without it''])
             else Inl (Error (''Failed to fetch manuscript: '' @ statusText r)))
          else (case body r of
                  Inl e \<Rightarrow> Inl e
                | Inr v \<Rightarrow> Inr (Value v, dl\<lparr>manuscriptData := Value v\<rparr>, [])))"

definition loadManuscriptData ::
  "site_config \<Rightarrow> string fetched \<Rightarrow> ('r, 'h) data_loader
   \<Rightarrow> js_error + (string nullable \<times> ('r, 'h) data_loader \<times> string list)" where
  "loadManuscriptData cfg fetchResult dl =
     (if truthyText (manuscriptData dl) then Inr (manuscriptData dl, dl, [])
      else (case manuscriptPath cfg of
              None \<Rightarrow> Inr (Null, dl, [])
            | Some path \<Rightarrow>
                if path = [] then Inr (Null, dl, [])
                else (case fetchManuscript cfg path fetchResult dl of
                        Inr result \<Rightarrow> Inr result
                      | Inl error \<Rightarrow>
                          Inr (Null, dl, [''Could not load manuscript data: ''
                                          @ describe error]))))"

section \<open>chat.js: the response finalizer\<close>

definition bookTriggers :: "string list" where
  "bookTriggers =
     [''evolution'', ''ai'', ''artificial intelligence'', ''machine learning'', ''biology'',
      ''career'', ''journey'', ''background'', ''scientist'', ''book'', ''write'', ''author'',
      ''creative'', ''creativity'', ''robot'', ''code'', ''programming'']"

definition bookPromoChance :: real where
  "bookPromoChance = 0.2"

definition skipsEmbellishment :: "string \<Rightarrow> bool" where
  "skipsEmbellishment response =
     (response = [] \<or> length response < 30 \<or> includesStr response ''apologize''
      \<or> includesStr response ''not sure'')"

definition hasBookTrigger :: "string \<Rightarrow> string \<Rightarrow> bool" where
  "hasBookTrigger response userText =
     list_ex (\<lambda>trigger. includesStr (toLowerCase userText) trigger
                         \<or> includesStr (toLowerCase response) trigger) bookTriggers"

text \<open>
  \<open>ChatEngine.finalizeResponse\<close>, over the promo and quip lists of context.js. The result
  is the reply and the position of the next draw. Console output and the debug inspection
  hook are outside the model.
\<close>

definition finalizeResponse ::
  "string list \<Rightarrow> string list \<Rightarrow> rng \<Rightarrow> nat \<Rightarrow> string \<Rightarrow> string \<Rightarrow> string \<times> nat" where
  "finalizeResponse promos quips rnd k response userText =
     (if skipsEmbellishment response then (response, k)
      else if hasBookTrigger response userText then
        (let (randomPromo, k') = selectRandomPromo promos noOptions rnd k
         in (response @ [NL, NL] @ interpolate randomPromo, k'))
      else if rnd k < bookPromoChance then
        (let (randomPromo, k') = selectRandomPromo promos noOptions rnd (Suc k)
         in (response @ [NL, NL] @ interpolate randomPromo, k'))
      else if rnd (Suc k) < 0.15 then
        (let (randomQuip, k') = selectRandomQuip quips noOptions rnd (Suc (Suc k))
         in (response @ [NL, NL] @ ''*'' @ interpolate randomQuip @ ''*'', k'))
      else (response, Suc (Suc k)))"

section \<open>chat.js: generation parameters and history pruning\<close>

record dyn_params =
  MAX_NEW_TOKENS :: int
  TEMPERATURE :: real
  TOP_P :: real
  TOP_K :: int
  REPETITION_PENALTY :: real
  HISTORY_LIMIT :: int
  MAX_CONTEXT_LENGTH :: int

definition drawInt :: "rng \<Rightarrow> nat \<Rightarrow> int \<Rightarrow> int \<Rightarrow> int" where
  \<comment> \<open>\<open>Math.floor(Math.random() * (max - min + 1)) + min\<close>\<close>
  "drawInt rnd k lo hi = \<lfloor>rnd k * real_of_int (hi - lo + 1)\<rfloor> + lo"

definition drawFloat :: "rng \<Rightarrow> nat \<Rightarrow> real \<Rightarrow> real \<Rightarrow> real" where
  \<comment> \<open>\<open>Math.random() * (max - min) + min\<close>, without the rounding of doubles\<close>
  "drawFloat rnd k lo hi = rnd k * (hi - lo) + lo"

text \<open>\<open>CONFIG.getDynamicValues()\<close> over \<open>CONFIG.RANGES\<close>, one draw per entry, in order.\<close>

definition getDynamicValues :: "rng \<Rightarrow> nat \<Rightarrow> dyn_params \<times> nat" where
  "getDynamicValues rnd k =
     (\<lparr>MAX_NEW_TOKENS = drawInt rnd k 80 200,
       TEMPERATURE = drawFloat rnd (k + 1) 0.5 1.3,
       TOP_P = drawFloat rnd (k + 2) 0.8 0.95,
       TOP_K = drawInt rnd (k + 3) 15 25,
       REPETITION_PENALTY = drawFloat rnd (k + 4) 1.02 1.15,
       HISTORY_LIMIT = drawInt rnd (k + 5) 5 10,
       MAX_CONTEXT_LENGTH = drawInt rnd (k + 6) 800 1100\<rparr>, k + 7)"

text \<open>
  \<open>xs.slice(start, end)\<close> on integer arguments: a negative index counts from the end,
  and both are clamped to the array. \<open>-0\<close> is \<open>0\<close>, so \<open>xs.slice(-0)\<close> is the whole
  array.
\<close>

definition jsSlice :: "'a list \<Rightarrow> int \<Rightarrow> int option \<Rightarrow> 'a list" where
  "jsSlice xs start end' =
     (let len = int (length xs);
          k = (if start < 0 then max (len + start) 0 else min start len);
          e = (case end' of
                 None \<Rightarrow> len
               | Some j \<Rightarrow> if j < 0 then max (len + j) 0 else min j len)
      in take (nat (e - k)) (drop (nat k) xs))"

type_synonym turn = "string \<times> string"

definition historyLimitOf :: "dyn_params option \<Rightarrow> int" where
  \<comment> \<open>\<open>this.currentParams ? this.currentParams.HISTORY_LIMIT : 8\<close>\<close>
  "historyLimitOf currentParams =
     (case currentParams of None \<Rightarrow> 8 | Some ps \<Rightarrow> HISTORY_LIMIT ps)"

definition keywordsOf :: "string \<Rightarrow> string list" where
  "keywordsOf currentInput =
     filter (\<lambda>w. length w > 3) (splitRuns isSpace [] (toLowerCase currentInput))"

definition isRelevant :: "string list \<Rightarrow> turn \<Rightarrow> bool" where
  "isRelevant keywords t =
     list_ex (\<lambda>keyword. includesStr (toLowerCase (snd t)) keyword) keywords"

text \<open>\<open>ChatEngine._pruneHistory\<close>, over the engine's history and current parameters.\<close>

definition pruneHistory :: "turn list \<Rightarrow> dyn_params option \<Rightarrow> string \<Rightarrow> turn list" where
  "pruneHistory history currentParams currentInput =
     (let historyLimit = historyLimitOf currentParams
      in if int (length history) \<le> historyLimit
         then jsSlice history (- historyLimit) None
         else (let recentHistory = jsSlice history (- historyLimit) None;
                   keywords = keywordsOf currentInput;
                   relevantOlder =
                     jsSlice (filter (isRelevant keywords)
                                (jsSlice history 0 (Some (- historyLimit)))) (- 2) None
               in relevantOlder @ recentHistory))"

section \<open>chat.js: the chat component\<close>

text \<open>
  The state of the component: the engine's history, sequence number and current parameters,
  whether the model manager holds a pipeline, and the user interface. A rendered message is
  an element with its role and the content last given to it (its HTML is a function of
  the two); \<open>scrollRequests\<close> counts the calls of \<open>_scrollToBottom\<close>. The field
  \<open>calls\<close> records, in order, which collaborators were invoked. Focus and console
  output are outside the model.
\<close>

datatype collaborator = PromptAssembly | InferenceAdapter | ResponseEmbellisher

record chat_state =
  history :: "turn list"
  genSeq :: nat
  currentParams :: "dyn_params option"
  pipeLoaded :: bool
  messages :: "(nat \<times> string \<times> string) list"
  nextElement :: nat
  status :: string
  controlsEnabled :: bool
  scrollRequests :: nat
  calls :: "collaborator list"

definition ELLIPSIS :: string where
  \<comment> \<open>the character U+2026, in UTF-8\<close>
  "ELLIPSIS = [CHR 0xE2, CHR 0x80, CHR 0xA6]"

definition THINKING_DOTS :: string where
  "THINKING_DOTS = ''<span class='' @ [CHR 0x22] @ ''thinking-dots'' @ [CHR 0x22] @ ''></span>''"

definition addMessage :: "string \<Rightarrow> string \<Rightarrow> chat_state \<Rightarrow> chat_state" where
  \<comment> \<open>\<open>ChatEngine.addMessage\<close>\<close>
  "addMessage role' content st = st\<lparr>history := history st @ [(role', content)]\<rparr>"

definition clearHistory :: "chat_state \<Rightarrow> chat_state" where
  "clearHistory st = st\<lparr>history := []\<rparr>"

definition cancelGeneration :: "chat_state \<Rightarrow> chat_state" where
  "cancelGeneration st = st\<lparr>genSeq := Suc (genSeq st)\<rparr>"

definition ui_addMessage :: "string \<Rightarrow> string \<Rightarrow> chat_state \<Rightarrow> chat_state \<times> nat" where
  \<comment> \<open>\<open>UIController.addMessage\<close>: a new element, returned, and a scroll to the bottom\<close>
  "ui_addMessage role' content st =
     (st\<lparr>messages := messages st @ [(nextElement st, role', content)],
         nextElement := Suc (nextElement st),
         scrollRequests := Suc (scrollRequests st)\<rparr>, nextElement st)"

definition ui_updateMessage :: "nat \<Rightarrow> string \<Rightarrow> bool \<Rightarrow> chat_state \<Rightarrow> chat_state" where
  \<comment> \<open>\<open>UIController.updateMessage\<close>; \<open>autoScroll\<close> is what \<open>_shouldAutoScroll()\<close> returns.
      An element that was removed from the page is no longer among the messages.\<close>
  "ui_updateMessage element content autoScroll st =
     st\<lparr>messages := map (\<lambda>(el, role', c). if el = element then (el, role', content)
                                           else (el, role', c)) (messages st),
        scrollRequests := (if autoScroll then Suc (scrollRequests st) else scrollRequests st)\<rparr>"

definition ui_clearMessages :: "chat_state \<Rightarrow> chat_state" where
  "ui_clearMessages st = st\<lparr>messages := []\<rparr>"

definition clearChat :: "chat_state \<Rightarrow> chat_state" where
  \<comment> \<open>\<open>AIChat._clearChat\<close>\<close>
  "clearChat st =
     fst (ui_addMessage ''assistant'' ''Chat cleared. What would you like to know?''
            (ui_clearMessages (clearHistory st)))"

text \<open>
  The closure of one call of \<open>_generateResponse\<close>: the sequence number it took, the
  formatted prompt, the element it writes to, the user input, and the variables
  \<open>latestText\<close> and \<open>lastScrollTime\<close> that its streaming callback updates.
\<close>

record gen_request =
  req_genSeq :: nat
  req_formatted :: string
  req_responseEl :: nat
  req_userInput :: string
  latestText :: string
  lastScrollTime :: int

text \<open>
  What the runtime passes to the callback: an array (with the \<open>generated_text\<close> of its
  first element, if any), an object (with its \<open>generated_text\<close> and \<open>token.text\<close>, if
  any), a string, or anything else.
\<close>

datatype chunk =
  ArrayChunk "string option"
| ObjectChunk "string option" "string option"
| StringChunk string
| OtherChunk

record cb_event =
  cb_chunk :: chunk
  cb_now :: int
  cb_autoScrollUpdate :: bool
  cb_autoScrollThrottled :: bool

definition truthyStr :: "string option \<Rightarrow> bool" where
  "truthyStr v = (case v of None \<Rightarrow> False | Some s \<Rightarrow> s \<noteq> [])"

definition stripLeadingDots :: "string \<Rightarrow> string" where
  \<comment> \<open>\<open>s.replace(/^\s*\.\.\.\s*/, "")\<close>\<close>
  "stripLeadingDots s =
     (if startsWith (dropWhile isSpace s) ''...''
      then dropWhile isSpace (drop 3 (dropWhile isSpace s))
      else s)"

definition stripPrompt :: "string \<Rightarrow> string \<Rightarrow> string" where
  \<comment> \<open>\<open>if (formatted && text.startsWith(formatted)) text = text.slice(formatted.length)\<close>\<close>
  "stripPrompt formatted t =
     (if formatted \<noteq> [] \<and> startsWith t formatted then drop (length formatted) t else t)"

definition nextLatestText :: "string \<Rightarrow> chunk \<Rightarrow> string" where
  "nextLatestText latest c =
     (case c of
        ArrayChunk g \<Rightarrow> if truthyStr g then the g else latest
      | ObjectChunk g t \<Rightarrow>
          if truthyStr g then the g
          else if truthyStr t then latest @ the t
          else latest
      | StringChunk s \<Rightarrow> latest @ s
      | OtherChunk \<Rightarrow> latest)"

text \<open>The streaming callback \<open>onUpdate\<close> of a request.\<close>

definition onUpdate :: "gen_request \<Rightarrow> cb_event \<Rightarrow> chat_state \<Rightarrow> gen_request \<times> chat_state" where
  "onUpdate rq ev st =
     (if genSeq st \<noteq> req_genSeq rq then (rq, st)
      else
        (let latest = nextLatestText (latestText rq) (cb_chunk ev);
             display = trim (stripLeadingDots (stripPrompt (req_formatted rq) latest));
             st1 = ui_updateMessage (req_responseEl rq)
                     (if display = [] then ELLIPSIS else display) (cb_autoScrollUpdate ev) st;
             throttled = (cb_now ev - lastScrollTime rq > 100);
             st2 = (if throttled \<and> cb_autoScrollThrottled ev
                    then st1\<lparr>scrollRequests := Suc (scrollRequests st1)\<rparr> else st1)
         in (rq\<lparr>latestText := latest,
                lastScrollTime := (if throttled then cb_now ev else lastScrollTime rq)\<rparr>,
             st2)))"

text \<open>
  What \<open>generateText\<close> resolves to: nothing (\<open>null\<close> or \<open>undefined\<close>), or a value
  whose element \<open>[0]\<close> is falsy or absent (\<open>None\<close>) or is a truthy value with its
  \<open>generated_text\<close> (\<open>None\<close> when it is \<open>null\<close> or \<open>undefined\<close>) and its rendering by
  \<open>String\<close>.
\<close>

record first_element =
  generated_text :: "string option"
  asString :: string

datatype gen_result = NoResult | ResultWith "first_element option"

definition replyOf :: "gen_request \<Rightarrow> gen_result \<Rightarrow> string" where
  "replyOf rq result =
     (let first = (case result of NoResult \<Rightarrow> None | ResultWith f \<Rightarrow> f);
          raw = (case Option.bind first generated_text of
                   Some g \<Rightarrow> g
                 | None \<Rightarrow> latestText rq);
          full = (if raw \<noteq> [] then raw
                  else (case first of None \<Rightarrow> [] | Some f \<Rightarrow> asString f))
      in trim (stripLeadingDots (stripPrompt (req_formatted rq) full)))"

text \<open>
  The part of \<open>_generateResponse\<close> that follows \<open>await generateText\<close>: the handling of
  the final result.
\<close>

definition finishGeneration ::
  "site_config \<Rightarrow> sample_content \<Rightarrow> gen_request \<Rightarrow> gen_result \<Rightarrow> rng \<Rightarrow> bool
   \<Rightarrow> chat_state \<Rightarrow> chat_state" where
  "finishGeneration cfg sample rq result rnd autoScroll st =
     (if genSeq st \<noteq> req_genSeq rq then st
      else
        (let reply = fst (finalizeResponse (BOOK_PROMOS cfg sample) (FUNNY_QUIPS cfg sample)
                            rnd 0 (replyOf rq result) (req_userInput rq));
             st1 = addMessage ''assistant'' reply
                     (st\<lparr>calls := calls st @ [ResponseEmbellisher]\<rparr>);
             st2 = ui_updateMessage (req_responseEl rq)
                     (if reply = [] then ''(no response)'' else reply) autoScroll st1
         in st2\<lparr>status := []\<rparr>))"

text \<open>
  One submission, run from start to end. Its inputs: the text of the input box, the draw
  that picks the canned response, the draws of the generation parameters, the prompt that
  \<open>formatPrompt\<close> returns, the events streamed to the callback, the outcome of
  \<open>generateText\<close>, and the draws and scroll position of the final handling.
\<close>

datatype gen_outcome = Throws js_error | Returns gen_result

record submit_env =
  rawInput :: string
  cannedDraw :: real
  paramDraws :: rng
  formattedPrompt :: string
  streamed :: "cb_event list"
  outcome :: gen_outcome
  finalizeDraws :: rng
  finishAutoScroll :: bool

definition greetings :: "string list" where
  "greetings = [''hi'', ''hello'', ''hey'', ''yo'', ''heeey guy'', ''sup'']"

definition cannedResponses :: "site_config \<Rightarrow> string list" where
  "cannedResponses cfg =
     [''Hello! I'm a simple bot on '' @ name cfg
        @ '''s site. You can ask about work, experience, or writing. What's on your mind?'',
      ''Hey there! I'm here to answer questions about '' @ name cfg @ ''. Fire away!'',
      ''Hi! Ask me something about '' @ name cfg @ '''s background or projects.'']"

fun runCallbacks :: "gen_request \<Rightarrow> cb_event list \<Rightarrow> chat_state \<Rightarrow> gen_request \<times> chat_state" where
  "runCallbacks rq [] st = (rq, st)"
| "runCallbacks rq (ev # evs) st = (case onUpdate rq ev st of (rq', st') \<Rightarrow> runCallbacks rq' evs st')"

text \<open>
  \<open>AIChat._generateResponse\<close>, in two parts. The first runs up to the call of
  \<open>generateText\<close>: prompt assembly (\<open>formatPrompt\<close> draws the parameters of the turn),
  a new sequence number, and the closure of the request. The second is the inference
  adapter at work (its callbacks) and the final handling. The error of a failed generation
  is returned with the state it leaves.
\<close>

definition startGeneration ::
  "submit_env \<Rightarrow> string \<Rightarrow> nat \<Rightarrow> chat_state \<Rightarrow> gen_request \<times> chat_state" where
  "startGeneration env userInput responseEl st =
     (let st1 = st\<lparr>currentParams := Some (fst (getDynamicValues (paramDraws env) 0)),
                   calls := calls st @ [PromptAssembly]\<rparr>;
          st2 = st1\<lparr>genSeq := Suc (genSeq st1)\<rparr>;
          rq = \<lparr>req_genSeq = genSeq st2, req_formatted = formattedPrompt env,
                req_responseEl = responseEl, req_userInput = userInput,
                latestText = [], lastScrollTime = 0\<rparr>
      in (rq, st2\<lparr>calls := calls st2 @ [InferenceAdapter]\<rparr>))"

definition generateResponse ::
  "site_config \<Rightarrow> sample_content \<Rightarrow> submit_env \<Rightarrow> string \<Rightarrow> nat \<Rightarrow> chat_state
   \<Rightarrow> js_error option \<times> chat_state" where
  "generateResponse cfg sample env userInput responseEl st =
     (let (rq, st3) = startGeneration env userInput responseEl st;
          (rq', st4) = runCallbacks rq (streamed env) st3
      in case outcome env of
           Throws e \<Rightarrow> (Some e, st4)
         | Returns result \<Rightarrow>
             (None, finishGeneration cfg sample rq' result (finalizeDraws env)
                      (finishAutoScroll env) st4))"

text \<open>
  \<open>AIChat._handleSubmit\<close>. A canned response that is \<open>undefined\<close> (a draw outside the
  unit interval, which \<open>Math.random\<close> does not return) makes \<open>UIController.addMessage\<close>
  throw a \<open>TypeError\<close>.
\<close>

definition handleSubmit ::
  "site_config \<Rightarrow> sample_content \<Rightarrow> submit_env \<Rightarrow> chat_state \<Rightarrow> js_error option \<times> chat_state" where
  "handleSubmit cfg sample env st =
     (let userInput = trim (rawInput env)
      in if userInput = [] then (None, st)
         else if trim (toLowerCase userInput) \<in> set greetings then
           (let st1 = fst (ui_addMessage ''user'' userInput (addMessage ''user'' userInput st))
            in case jsIndex (cannedResponses cfg)
                      (Some (\<lfloor>cannedDraw env * real (length (cannedResponses cfg))\<rfloor>)) of
                 None \<Rightarrow> (Some TypeError, st1)
               | Some response \<Rightarrow>
                   (None, fst (ui_addMessage ''assistant'' response
                                 (addMessage ''assistant'' response st1))))
         else
           (let st1 = fst (ui_addMessage ''user'' userInput (addMessage ''user'' userInput st))
            in if \<not> pipeLoaded st1
               then (None, fst (ui_addMessage ''assistant'' ''Load a model first.'' st1))
               else
                 (let (st2, responseEl) =
                        ui_addMessage ''assistant'' THINKING_DOTS
                          (st1\<lparr>controlsEnabled := False, status := ''Thinking'' @ ELLIPSIS\<rparr>)
                  in case generateResponse cfg sample env userInput responseEl st2 of
                       (None, st3) \<Rightarrow> (None, st3\<lparr>controlsEnabled := True\<rparr>)
                     | (Some e, st3) \<Rightarrow>
                         (None, (ui_updateMessage responseEl
                                   ''Generation error. Please try again.''
                                   (finishAutoScroll env) st3)
                                 \<lparr>status := ''Error'', controlsEnabled := True\<rparr>))))"

text \<open>
  What can happen to the component after a request has started: the generation is
  cancelled, another request starts (it takes the next sequence number), a whole submission
  runs, the chat is cleared, or the callback or the final handling of any request runs.
\<close>

datatype activity =
  Cancel
| Start submit_env string nat
| Submit submit_env
| ClearChat
| Callback gen_request cb_event
| Finish gen_request gen_result rng bool

definition perform :: "site_config \<Rightarrow> sample_content \<Rightarrow> chat_state \<Rightarrow> activity \<Rightarrow> chat_state" where
  "perform cfg sample st a =
     (case a of
        Cancel \<Rightarrow> cancelGeneration st
      | Start env userInput responseEl \<Rightarrow> snd (startGeneration env userInput responseEl st)
      | Submit env \<Rightarrow> snd (handleSubmit cfg sample env st)
      | ClearChat \<Rightarrow> clearChat st
      | Callback rq ev \<Rightarrow> snd (onUpdate rq ev st)
      | Finish rq result rnd autoScroll \<Rightarrow> finishGeneration cfg sample rq result rnd autoScroll st)"

section \<open>Predicates of the statements\<close>

definition isBoilerplate :: "string \<Rightarrow> bool" where
  \<comment> \<open>the header, boilerplate, page-number and section-break tests of the paragraph filter\<close>
  "isBoilerplate p =
     (startsWith p ''Chapter '' \<or> startsWith p ''Copyright'' \<or> startsWith p ''ISBN''
      \<or> (p \<noteq> [] \<and> list_all (\<lambda>c. isDigit c \<or> isSpace c) p)
      \<or> startsWith p ''Robo-Excerpt'' \<or> includesStr p ''[ ||| ]'')"

definition spec_roughlyFortyPercent :: "nat \<Rightarrow> nat \<Rightarrow> bool" where
  \<comment> \<open>the spec's "roughly the first 40% of their sentences": \<open>k\<close> of \<open>n\<close> sentences, within
      one sentence of 40%\<close>
  "spec_roughlyFortyPercent k n = (\<bar>real k - 0.4 * real n\<bar> \<le> 1)"

section \<open>Example inputs\<close>

definition cfgStrict :: site_config where
  "cfgStrict =
     \<lparr>name = ''Your Name'', resumeJsonPath = Some ''assets/resume.json'',
      highlightsPath = Some ''public/files/highlights.sample.json'',
      manuscriptPath = Some ''public/files/manuscript.sample.txt'',
      book = Some \<lparr>title = ''Your Awesome Book Title'', url = ''https://example.com/your-book''\<rparr>,
      useBookPromos = True, useFunnyQuips = True, gracefulDegradation = False\<rparr>"

definition notFound :: "'a fetched" where
  "notFound = Responded \<lparr>ok = False, statusText = ''Not Found'', body = Inl SyntaxError\<rparr>"

definition emptyLoader :: "(unit, unit) data_loader" where
  "emptyLoader = \<lparr>resumeData = Null, highlightsData = Null, manuscriptData = Null\<rparr>"

definition fiveQuotes :: highlights_data where
  "fiveQuotes =
     \<lparr>books = Some
        [\<lparr>book_title = ''On Writing'', book_author = ''A. Author'',
          highlights = Some [\<lparr>hl_text = ''q0''\<rparr>, \<lparr>hl_text = ''q1''\<rparr>]\<rparr>,
         \<lparr>book_title = ''No Notes'', book_author = ''B. Author'', highlights = None\<rparr>,
         \<lparr>book_title = ''On Robots'', book_author = ''C. Author'',
          highlights = Some [\<lparr>hl_text = ''q2''\<rparr>, \<lparr>hl_text = ''q3''\<rparr>, \<lparr>hl_text = ''q4''\<rparr>]\<rparr>]\<rparr>"

definition paragraph100 :: string where
  "paragraph100 =
     ''The quick brown fox jumps over the lazy dog while the robot writes code about evolution and biology.''"

definition paragraph119 :: string where
  "paragraph119 =
     ''A second paragraph, long enough to pass the length test, talks about machine learning and about writing in some detail.''"

definition twoParagraphs :: string where
  "twoParagraphs = paragraph100 @ [NL, NL] @ paragraph119"

definition longParagraph :: string where
  "longParagraph =
     ''Sentence 01 is short. Sentence 02 is short. Sentence 03 is short. Sentence 04 is short. Sentence 05 is short. Sentence 06 is short. Sentence 07 is short. Sentence 08 is short. Sentence 09 is short. Sentence 10 is short. Sentence 11 is short. Sentence 12 is short. Sentence 13 is short. Sentence 14 is short. Sentence 15 is short. Sentence 16 is short. Sentence 17 is short. Sentence 18 is short. Sentence 19 is short. Sentence 20 is short.''"

definition sampleHistory :: "turn list" where
  "sampleHistory =
     [(''user'', ''Tell me about evolution''), (''assistant'', ''It is a long story.''),
      (''user'', ''What about robots?''), (''assistant'', ''Robots are fun.''),
      (''user'', ''And evolution of robots?''), (''assistant'', ''Even more fun.''),
      (''user'', ''one''), (''assistant'', ''two''), (''user'', ''three'')]"

definition windowOfFive :: "dyn_params option" where
  "windowOfFive =
     Some \<lparr>MAX_NEW_TOKENS = 80, TEMPERATURE = 1, TOP_P = 0.9, TOP_K = 15,
           REPETITION_PENALTY = 1.1, HISTORY_LIMIT = 5, MAX_CONTEXT_LENGTH = 800\<rparr>"

definition cfgAsidesOff :: site_config where
  "cfgAsidesOff =
     \<lparr>name = ''Your Name'', resumeJsonPath = Some ''assets/resume.json'',
      highlightsPath = Some ''public/files/highlights.sample.json'',
      manuscriptPath = Some ''public/files/manuscript.sample.txt'',
      book = Some \<lparr>title = ''Your Awesome Book Title'', url = ''https://example.com/your-book''\<rparr>,
      useBookPromos = False, useFunnyQuips = False, gracefulDegradation = True\<rparr>"

definition sampleContent :: sample_content where
  "sampleContent =
     \<lparr>funnyQuips = [''I have a degree in making conversation from the University of Localhost.''],
      bookPromos = [''Before we continue, did you know about the book {BOOK_TITLE}? Get it at {BOOK_URL}.'']\<rparr>"

definition idleState :: chat_state where
  "idleState =
     \<lparr>history = [], genSeq = 0, currentParams = None, pipeLoaded = True,
      messages = [(0, ''assistant'', ''Loaded.'')], nextElement = 1, status = ''Ready'',
      controlsEnabled = True, scrollRequests = 1, calls = []\<rparr>"

definition busyState :: chat_state where
  "busyState =
     \<lparr>history = [(''user'', ''first question''), (''user'', ''second question'')],
      genSeq = 2, currentParams = None, pipeLoaded = True,
      messages = [(0, ''assistant'', ''Loaded.''), (1, ''user'', ''first question''),
                  (2, ''assistant'', THINKING_DOTS), (3, ''user'', ''second question''),
                  (4, ''assistant'', THINKING_DOTS)],
      nextElement = 5, status = ''Thinking'' @ ELLIPSIS, controlsEnabled = False,
      scrollRequests = 5, calls = [PromptAssembly, InferenceAdapter, PromptAssembly,
                                   InferenceAdapter]\<rparr>"

definition staleRequest :: gen_request where
  "staleRequest =
     \<lparr>req_genSeq = 1, req_formatted = ''User: first question'', req_responseEl = 2,
      req_userInput = ''first question'', latestText = ''partial'', lastScrollTime = 0\<rparr>"

definition lateEvent :: cb_event where
  "lateEvent =
     \<lparr>cb_chunk = StringChunk '' answer'', cb_now = 500, cb_autoScrollUpdate = True,
      cb_autoScrollThrottled = True\<rparr>"

definition lateResult :: gen_result where
  "lateResult =
     ResultWith (Some \<lparr>generated_text = Some ''partial answer, now complete and long enough'',
                       asString = ''[object Object]''\<rparr>)"

definition helloEnv :: submit_env where
  "helloEnv =
     \<lparr>rawInput = ''  Hello '', cannedDraw = 1 / 2, paramDraws = (\<lambda>k. 1 / 2),
      formattedPrompt = ''User: Hello there'', streamed = [],
      outcome = Returns (ResultWith (Some \<lparr>generated_text = Some ''Hi.'',
                                             asString = ''[object Object]''\<rparr>)),
      finalizeDraws = (\<lambda>k. 1 / 2), finishAutoScroll = True\<rparr>"

section \<open>Properties of the data loader\<close>

lemma loadResumeData_fulfils: "\<exists>result. loadResumeData cfg fetchResult dl = Inr result"
  by (simp add: loadResumeData_def split: option.splits sum.splits)

lemma loadHighlightsData_fulfils: "\<exists>result. loadHighlightsData cfg fetchResult dl = Inr result"
  by (simp add: loadHighlightsData_def split: option.splits sum.splits)

lemma loadManuscriptData_fulfils: "\<exists>result. loadManuscriptData cfg fetchResult dl = Inr result"
  by (simp add: loadManuscriptData_def split: option.splits sum.splits)

lemma loaders_graceful_null:
  assumes "gracefulDegradation cfg" and "\<not> ok r"
    and "resumeData dl = Null" and "resumeJsonPath cfg = Some path" and "path \<noteq> []"
  shows "\<exists>warnings. loadResumeData cfg (Responded r) dl = Inr (Null, dl, warnings)"
  using assms by (simp add: loadResumeData_def fetchResume_def)

text \<open>
  Claim C1, at the failing input. With graceful degradation disabled and a response that
  is not ok, each loader builds the error \<open>Failed to fetch ...\<close> and throws it inside its
  own \<open>try\<close> block; the \<open>catch\<close> of that block logs it and returns \<open>null\<close>. The promise
  is fulfilled with \<open>null\<close>, as it is with graceful degradation enabled: no error reaches
  the caller.
\<close>

theorem loaders_swallow_fetch_error:
  "loadResumeData cfgStrict notFound emptyLoader
     = Inr (Null, emptyLoader,
            [''Could not load resume data: Error: Failed to fetch resume: Not Found''])
   \<and> loadHighlightsData cfgStrict notFound emptyLoader
     = Inr (Null, emptyLoader,
            [''Could not load highlights data: Error: Failed to fetch highlights: Not Found''])
   \<and> loadManuscriptData cfgStrict notFound emptyLoader
     = Inr (Null, emptyLoader,
            [''Could not load manuscript data: Error: Failed to fetch manuscript: Not Found''])"
  by (simp add: loadResumeData_def loadHighlightsData_def loadManuscriptData_def
      fetchResume_def fetchHighlights_def fetchManuscript_def cfgStrict_def notFound_def
      emptyLoader_def truthyText_def describe_def)

section \<open>Properties of the seeded selection\<close>

lemma jsIndex_in_set: "jsIndex xs i = Some x \<Longrightarrow> x \<in> set xs"
  by (auto simp: jsIndex_def split: option.splits if_splits)

lemma jsIndex_nat: "i < length xs \<Longrightarrow> jsIndex xs (Some (int i)) = Some (xs ! i)"
  by (simp add: jsIndex_def)

lemma jsRem_small: "0 \<le> a \<Longrightarrow> a < b \<Longrightarrow> jsRem a b = Some a"
  by (auto simp: jsRem_def sgn_if)

lemma selectParagraph_seeded:
  "seed opts = Some s \<Longrightarrow>
   selectParagraph ps opts rnd k = (jsIndex ps (jsRem s (int (length ps))), k)"
  by (simp add: selectParagraph_def isDeterministic_def seedOf_def)

lemma selectRandomManuscriptChunk_seeded:
  "seed opts = Some s \<Longrightarrow>
   map_sum id fst (selectRandomManuscriptChunk m opts rnd1 k1)
   = map_sum id fst (selectRandomManuscriptChunk m opts rnd2 k2)"
  by (auto simp: selectRandomManuscriptChunk_def selectParagraph_seeded
      split: nullable.splits option.splits)

lemma selectRandomHighlights_seeded:
  "seed opts = Some s \<Longrightarrow>
   \<exists>hs. \<forall>rnd k. selectRandomHighlights d opts rnd k = Some (hs, k)"
proof -
  assume sd: "seed opts = Some s"
  have "\<forall>rnd k. selectRandomHighlights d opts rnd k
          = Some (fst (the (selectRandomHighlights d opts (\<lambda>k. 0) 0)), k)"
    using sd
    by (simp add: selectRandomHighlights_def isDeterministic_def Let_def
        split: nullable.splits option.splits)
  then show ?thesis
    by blast
qed

text \<open>
  Claim C3. With a seed given, the highlight selection returns, and its result is the same
  for every random source and every position in it: two invocations with the same
  highlights data and seed return identical results. The same holds for the manuscript
  excerpt (the chosen text, or the \<open>TypeError\<close> of a seed that indexes outside the list).
\<close>

theorem seeded_selection_deterministic:
  assumes "seed opts = Some s"
  shows "(\<exists>hs. \<forall>rnd k. selectRandomHighlights d opts rnd k = Some (hs, k))
         \<and> map_option fst (selectRandomHighlights d opts rnd1 k1)
           = map_option fst (selectRandomHighlights d opts rnd2 k2)
         \<and> map_sum id fst (selectRandomManuscriptChunk m opts rnd1 k1)
           = map_sum id fst (selectRandomManuscriptChunk m opts rnd2 k2)"
proof -
  obtain hs where hs: "\<And>rnd k. selectRandomHighlights d opts rnd k = Some (hs, k)"
    using selectRandomHighlights_seeded [OF assms] by blast
  have "map_option fst (selectRandomHighlights d opts rnd1 k1)
        = map_option fst (selectRandomHighlights d opts rnd2 k2)"
    by (simp add: hs)
  with hs selectRandomManuscriptChunk_seeded [OF assms] show ?thesis
    by blast
qed

theorem seeded_selection_deterministic_witness:
  "map_option fst (selectRandomHighlights (Value fiveQuotes) \<lparr>seed = Some 7, randomize = None\<rparr>
                     (\<lambda>k. 0) 0)
   = map_option fst (selectRandomHighlights (Value fiveQuotes) \<lparr>seed = Some 7, randomize = None\<rparr>
                     (\<lambda>k. 9 / 10) 3)
   \<and> map_sum id fst (selectRandomManuscriptChunk (Value twoParagraphs)
                       \<lparr>seed = Some 7, randomize = None\<rparr> (\<lambda>k. 0) 0)
     = map_sum id fst (selectRandomManuscriptChunk (Value twoParagraphs)
                       \<lparr>seed = Some 7, randomize = None\<rparr> (\<lambda>k. 9 / 10) 3)"
  using seeded_selection_deterministic
          [where opts = "\<lparr>seed = Some 7, randomize = None\<rparr>" and s = 7
             and d = "Value fiveQuotes" and m = "Value twoParagraphs"
             and ?rnd1.0 = "\<lambda>k. 0" and ?k1.0 = 0 and ?rnd2.0 = "\<lambda>k. 9 / 10" and ?k2.0 = 3]
  by simp

lemma highlightObjects_nth:
  "i < length (allHighlights bs) \<Longrightarrow>
   jsIndex (highlightObjects bs) (Some (int i)) = Some (i, allHighlights bs ! i)"
  by (simp add: highlightObjects_def jsIndex_def nth_enumerate_eq)

text \<open>
  Claim C4. For highlights data whose books hold five quotes in all and the seed 0, the
  selection returns exactly three distinct highlight objects: those at the indices
  0, 17 mod 5 and 34 mod 5 of the flattened list, in this order.
\<close>

theorem seeded_selection_five_quotes:
  assumes "books d = Some bs" and "length (allHighlights bs) = 5"
  shows "selectRandomHighlights (Value d) \<lparr>seed = Some 0, randomize = r\<rparr> rnd k
         = Some (Value [Some (0, allHighlights bs ! 0),
                        Some (17 mod 5 :: nat, allHighlights bs ! (17 mod 5)),
                        Some (34 mod 5 :: nat, allHighlights bs ! (34 mod 5))], k)
         \<and> distinct [Some (0 :: nat, allHighlights bs ! 0),
                      Some (17 mod 5 :: nat, allHighlights bs ! (17 mod 5)),
                      Some (34 mod 5 :: nat, allHighlights bs ! (34 mod 5))]"
proof -
  let ?all = "highlightObjects bs"
  have len: "length ?all = 5"
    using assms(2) by (simp add: highlightObjects_def)
  have i0: "jsIndex ?all (jsRem 0 5) = Some (0, allHighlights bs ! 0)"
    using highlightObjects_nth [of 0 bs] assms(2) by (simp add: jsRem_def)
  have i1: "jsIndex ?all (jsRem 17 5) = Some (2, allHighlights bs ! 2)"
    using highlightObjects_nth [of 2 bs] assms(2) by (simp add: jsRem_def)
  have i2: "jsIndex ?all (jsRem 34 5) = Some (4, allHighlights bs ! 4)"
    using highlightObjects_nth [of 4 bs] assms(2) by (simp add: jsRem_def)
  have loop: "seededLoop 0 ?all 3 0 []
              = [Some (0, allHighlights bs ! 0), Some (2, allHighlights bs ! 2),
                 Some (4, allHighlights bs ! 4)]"
    by (simp add: seededLoop.simps [of 0 ?all 3] len i0 i1 i2 Let_def)
  have ne: "?all \<noteq> []"
    using len by auto
  show ?thesis
    using assms(1) len loop ne
    by (simp add: selectRandomHighlights_def isDeterministic_def seedOf_def Let_def)
qed

theorem seeded_selection_five_quotes_witness:
  "selectRandomHighlights (Value fiveQuotes) \<lparr>seed = Some 0, randomize = None\<rparr> (\<lambda>k. 0) 0
   = Some (Value [Some (0, \<lparr>sel_text = ''q0'', bookTitle = ''On Writing'', author = ''A. Author''\<rparr>),
                  Some (2, \<lparr>sel_text = ''q2'', bookTitle = ''On Robots'', author = ''C. Author''\<rparr>),
                  Some (4, \<lparr>sel_text = ''q4'', bookTitle = ''On Robots'', author = ''C. Author''\<rparr>)], 0)"
  using seeded_selection_five_quotes
          [where d = fiveQuotes and r = None and rnd = "\<lambda>k. 0" and k = 0
             and bs = "the (books fiveQuotes)"]
  by (simp add: fiveQuotes_def allHighlights_def)

section \<open>Properties of the manuscript excerpt\<close>

lemma qualifies_iff: "qualifies p \<longleftrightarrow> 100 < length p \<and> \<not> isBoilerplate p"
  by (auto simp: qualifies_def isBoilerplate_def)

lemma selectParagraph_in_set:
  "fst (selectParagraph ps opts rnd k) = Some p \<Longrightarrow> p \<in> set ps"
  by (auto simp: selectParagraph_def dest: jsIndex_in_set split: if_splits)

lemma manuscriptParagraphs_qualify: "p \<in> set (manuscriptParagraphs m) \<Longrightarrow> qualifies p"
  by (simp add: manuscriptParagraphs_def)

lemma manuscriptParagraphs_member:
  "p \<in> set (map trim (splitBlank [] m)) \<Longrightarrow> qualifies p \<Longrightarrow> p \<in> set (manuscriptParagraphs m)"
  by (simp add: manuscriptParagraphs_def)

lemma seeded_index_selects:
  assumes "i < length ps"
  shows "selectParagraph ps \<lparr>seed = Some (int i), randomize = r\<rparr> rnd k = (Some (ps ! i), k)"
  using assms
  by (simp add: selectParagraph_def isDeterministic_def seedOf_def jsRem_small jsIndex_nat)

lemma eligible_by_seed:
  assumes "p \<in> set (map trim (splitBlank [] m))" and "qualifies p"
  shows "\<exists>sd. \<forall>r rnd k. selectRandomManuscriptChunk (Value m) \<lparr>seed = Some sd, randomize = r\<rparr> rnd k
                          = Inr (Value (truncateChunk p), k)"
proof -
  have mem: "p \<in> set (manuscriptParagraphs m)"
    using assms by (rule manuscriptParagraphs_member)
  then obtain i where i: "i < length (manuscriptParagraphs m)" "manuscriptParagraphs m ! i = p"
    by (auto simp: in_set_conv_nth)
  have ne: "manuscriptParagraphs m \<noteq> []"
    using mem by auto
  have m: "m \<noteq> []"
    using ne by (auto simp: manuscriptParagraphs_def qualifies_def trim_def)
  have "\<forall>r rnd k. selectRandomManuscriptChunk (Value m) \<lparr>seed = Some (int i), randomize = r\<rparr> rnd k
                   = Inr (Value (truncateChunk p), k)"
    using i ne m by (simp add: selectRandomManuscriptChunk_def seeded_index_selects)
  then show ?thesis
    by blast
qed

lemma excerpt_from_long_paragraph:
  assumes "selectRandomManuscriptChunk (Value m) opts rnd k = Inr (Value c, k')"
  shows "\<exists>q. q \<in> set (map trim (splitBlank [] m)) \<and> 100 < length q \<and> c = truncateChunk q"
proof -
  obtain v k2 where sel: "selectParagraph (manuscriptParagraphs m) opts rnd k = (v, k2)"
    by (cases "selectParagraph (manuscriptParagraphs m) opts rnd k")
  from assms sel obtain q where q: "v = Some q" "c = truncateChunk q"
    by (cases v) (auto simp: selectRandomManuscriptChunk_def split: if_splits)
  have "q \<in> set (manuscriptParagraphs m)"
    using sel q(1) selectParagraph_in_set [of "manuscriptParagraphs m" opts rnd k q] by simp
  then have "q \<in> set (map trim (splitBlank [] m)) \<and> qualifies q"
    by (auto simp: manuscriptParagraphs_def)
  then show ?thesis
    using q(2) by (auto simp: qualifies_iff)
qed

text \<open>
  Claim C6, as amended. The length test is strict: a paragraph is a candidate when it is
  longer than 100 characters. A paragraph of at most 100 characters (after trimming) is
  never the selected one, seeded or random, and every excerpt returned is made from a
  paragraph longer than 100 characters; a paragraph of 101 characters or more that the
  header and boilerplate tests do not exclude is eligible: some seed selects it, and the
  excerpt returned is its (possibly truncated) text.
\<close>

theorem manuscript_paragraph_threshold:
  "(fst (selectParagraph (manuscriptParagraphs m) opts rnd k) = Some p \<longrightarrow> 100 < length p)
   \<and> (selectRandomManuscriptChunk (Value m) opts rnd k = Inr (Value c, k') \<longrightarrow>
        (\<exists>q. q \<in> set (map trim (splitBlank [] m)) \<and> 100 < length q \<and> c = truncateChunk q))
   \<and> (p' \<in> set (map trim (splitBlank [] m)) \<and> 101 \<le> length p' \<and> \<not> isBoilerplate p' \<longrightarrow>
        (\<exists>sd. \<forall>r rnd k. selectRandomManuscriptChunk (Value m) \<lparr>seed = Some sd, randomize = r\<rparr> rnd k
                         = Inr (Value (truncateChunk p'), k)))"
proof (intro conjI impI)
  assume "fst (selectParagraph (manuscriptParagraphs m) opts rnd k) = Some p"
  then have "qualifies p"
    by (blast dest: selectParagraph_in_set manuscriptParagraphs_qualify)
  then show "100 < length p"
    by (simp add: qualifies_iff)
next
  assume "selectRandomManuscriptChunk (Value m) opts rnd k = Inr (Value c, k')"
  then show "\<exists>q. q \<in> set (map trim (splitBlank [] m)) \<and> 100 < length q \<and> c = truncateChunk q"
    by (rule excerpt_from_long_paragraph)
next
  assume a: "p' \<in> set (map trim (splitBlank [] m)) \<and> 101 \<le> length p' \<and> \<not> isBoilerplate p'"
  then have "qualifies p'"
    by (simp add: qualifies_iff)
  with a show "\<exists>sd. \<forall>r rnd k. selectRandomManuscriptChunk (Value m)
                    \<lparr>seed = Some sd, randomize = r\<rparr> rnd k = Inr (Value (truncateChunk p'), k)"
    by (blast intro: eligible_by_seed)
qed

theorem manuscript_paragraph_threshold_witness:
  "100 < length paragraph119
   \<and> (\<exists>sd. \<forall>r rnd k. selectRandomManuscriptChunk (Value twoParagraphs)
                        \<lparr>seed = Some sd, randomize = r\<rparr> rnd k
                      = Inr (Value (truncateChunk paragraph119), k))"
proof -
  have sel: "fst (selectParagraph (manuscriptParagraphs twoParagraphs)
                    \<lparr>seed = Some 0, randomize = None\<rparr> (\<lambda>k. 0) 0) = Some paragraph119"
    by code_simp
  have mem: "paragraph119 \<in> set (map trim (splitBlank [] twoParagraphs))"
    by code_simp
  have len: "101 \<le> length paragraph119"
    by code_simp
  have ok: "\<not> isBoilerplate paragraph119"
    by code_simp
  show ?thesis
    using manuscript_paragraph_threshold
            [where m = twoParagraphs and opts = "\<lparr>seed = Some 0, randomize = None\<rparr>"
               and rnd = "\<lambda>k. 0" and k = 0 and p = paragraph119 and p' = paragraph119
               and c = paragraph119 and k' = 0]
          sel mem len ok
    by blast
qed

text \<open>
  The claim as stated fails at the threshold itself: a paragraph of exactly 100 characters
  that no other test excludes is not a candidate. In a manuscript of this paragraph and a
  longer one, only the longer one is ever selected; alone, the paragraph yields \<open>null\<close>.
\<close>

theorem manuscript_paragraph_threshold_counterexample:
  "length paragraph100 = 100
   \<and> \<not> isBoilerplate paragraph100
   \<and> map trim (splitBlank [] twoParagraphs) = [paragraph100, paragraph119]
   \<and> manuscriptParagraphs twoParagraphs = [paragraph119]
   \<and> selectRandomManuscriptChunk (Value twoParagraphs) \<lparr>seed = Some 0, randomize = None\<rparr> (\<lambda>k. 0) 0
     = Inr (Value paragraph119, 0)
   \<and> selectRandomManuscriptChunk (Value paragraph100) \<lparr>seed = Some 0, randomize = None\<rparr> (\<lambda>k. 0) 0
     = Inr (Null, 0)
   \<and> selectRandomManuscriptChunk (Value paragraph100) noOptions (\<lambda>k. 0) 0 = Inr (Null, 0)"
  by code_simp

lemma numSentences_bounds: "1 \<le> numSentences n \<and> numSentences n \<le> 3"
  by (simp add: numSentences_def)

lemma numSentences_capped: "8 \<le> n \<Longrightarrow> numSentences n = 3"
proof -
  assume "8 \<le> n"
  then have "(3::real) \<le> real n * 0.4"
    by simp
  then have "3 \<le> \<lfloor>real n * 0.4\<rfloor>"
    by (simp add: le_floor_iff)
  then have "3 \<le> nat \<lfloor>real n * 0.4\<rfloor>"
    by linarith
  then show ?thesis
    unfolding numSentences_def by linarith
qed

lemma numSentences_small: "n \<le> 10 \<Longrightarrow> spec_roughlyFortyPercent (numSentences n) n"
proof -
  assume "n \<le> 10"
  then consider "n = 0" | "n = 1" | "n = 2" | "n = 3" | "n = 4" | "n = 5" | "n = 6"
    | "n = 7" | "n = 8" | "n = 9" | "n = 10"
    by atomize_elim arith
  then show ?thesis
    by cases (simp_all add: numSentences_def spec_roughlyFortyPercent_def)
qed

text \<open>
  Claim C8, as amended. For a selected paragraph of more than 300 characters the excerpt is
  made of the first \<open>k\<close> pieces of the paragraph split at its runs of \<open>.\<close>, \<open>!\<close> and
  \<open>?\<close>, joined by full stops, with a full stop added and the whole trimmed, where
  \<open>k = min 3 (max 1 (floor (0.4 * n)))\<close> for \<open>n\<close> pieces. So \<open>k\<close> is between one and
  three: it is within one sentence of 40% for paragraphs of up to ten pieces, and it is
  three for every paragraph of eight pieces or more, whatever 40% of them would be.
\<close>

theorem oversized_paragraph_truncation:
  assumes "fst (selectParagraph (manuscriptParagraphs m) opts rnd k) = Some p"
    and "300 < length p"
  shows "selectRandomManuscriptChunk (Value m) opts rnd k
         = Inr (Value (trim (joinWith ''.'' (take (numSentences (length (sentencesOf p)))
                                            (sentencesOf p)) @ ''.'')),
                snd (selectParagraph (manuscriptParagraphs m) opts rnd k))
         \<and> 1 \<le> numSentences n \<and> numSentences n \<le> 3
         \<and> (8 \<le> n \<longrightarrow> numSentences n = 3)
         \<and> (n \<le> 10 \<longrightarrow> spec_roughlyFortyPercent (numSentences n) n)"
proof -
  have mem: "p \<in> set (manuscriptParagraphs m)"
    using assms(1) by (rule selectParagraph_in_set)
  then have ne: "manuscriptParagraphs m \<noteq> []"
    by auto
  then have m: "m \<noteq> []"
    by (auto simp: manuscriptParagraphs_def qualifies_def trim_def)
  obtain k' where sel: "selectParagraph (manuscriptParagraphs m) opts rnd k = (Some p, k')"
    using assms(1) by (cases "selectParagraph (manuscriptParagraphs m) opts rnd k") simp
  have "selectRandomManuscriptChunk (Value m) opts rnd k = Inr (Value (truncateChunk p), k')"
    using ne m sel by (simp add: selectRandomManuscriptChunk_def)
  then have "selectRandomManuscriptChunk (Value m) opts rnd k
         = Inr (Value (trim (joinWith ''.'' (take (numSentences (length (sentencesOf p)))
                                            (sentencesOf p)) @ ''.'')),
                snd (selectParagraph (manuscriptParagraphs m) opts rnd k))"
    using assms(2) sel by (simp add: truncateChunk_def)
  then show ?thesis
    using numSentences_bounds [of n] numSentences_capped [of n] numSentences_small [of n]
    by blast
qed

theorem oversized_paragraph_truncation_witness:
  "selectRandomManuscriptChunk (Value longParagraph) \<lparr>seed = Some 0, randomize = None\<rparr> (\<lambda>k. 0) 0
   = Inr (Value (trim (joinWith ''.'' (take (numSentences (length (sentencesOf longParagraph)))
                                      (sentencesOf longParagraph)) @ ''.'')),
          snd (selectParagraph (manuscriptParagraphs longParagraph)
                 \<lparr>seed = Some 0, randomize = None\<rparr> (\<lambda>k. 0) 0))
   \<and> spec_roughlyFortyPercent (numSentences 5) 5
   \<and> numSentences 21 = 3"
proof -
  have sel: "fst (selectParagraph (manuscriptParagraphs longParagraph)
                    \<lparr>seed = Some 0, randomize = None\<rparr> (\<lambda>k. 0) 0) = Some longParagraph"
    by code_simp
  have len: "300 < length longParagraph"
    by code_simp
  show ?thesis
    using oversized_paragraph_truncation
            [where m = longParagraph and opts = "\<lparr>seed = Some 0, randomize = None\<rparr>"
               and rnd = "\<lambda>k. 0" and k = 0 and p = longParagraph and n = 5, OF sel len]
          oversized_paragraph_truncation
            [where m = longParagraph and opts = "\<lparr>seed = Some 0, randomize = None\<rparr>"
               and rnd = "\<lambda>k. 0" and k = 0 and p = longParagraph and n = 21, OF sel len]
    by simp
qed

text \<open>
  The claim as stated, for paragraphs of any sentence count, fails on a paragraph of twenty
  sentences (21 pieces, the last one empty): the excerpt holds its first three sentences,
  and three is not within one sentence of 40% of 21.
\<close>

theorem oversized_paragraph_truncation_counterexample:
  "300 < length longParagraph
   \<and> selectRandomManuscriptChunk (Value longParagraph) \<lparr>seed = Some 0, randomize = None\<rparr> (\<lambda>k. 0) 0
     = Inr (Value ''Sentence 01 is short. Sentence 02 is short. Sentence 03 is short.'', 0)
   \<and> length (sentencesOf longParagraph) = 21
   \<and> numSentences (length (sentencesOf longParagraph)) = 3
   \<and> \<not> spec_roughlyFortyPercent 3 21"
proof -
  have a: "300 < length longParagraph"
    by code_simp
  have b: "selectRandomManuscriptChunk (Value longParagraph) \<lparr>seed = Some 0, randomize = None\<rparr> (\<lambda>k. 0) 0
     = Inr (Value ''Sentence 01 is short. Sentence 02 is short. Sentence 03 is short.'', 0)"
    by code_simp
  have c: "length (sentencesOf longParagraph) = 21"
    by code_simp
  have d: "numSentences 21 = 3"
    by (simp add: numSentences_def)
  have e: "\<not> spec_roughlyFortyPercent 3 21"
    by (simp add: spec_roughlyFortyPercent_def)
  show ?thesis
    using a b c d e by simp
qed

section \<open>Properties of history pruning\<close>

lemma jsSlice_last:
  "0 < n \<Longrightarrow> jsSlice xs (- n) None = drop (length xs - nat n) xs"
proof -
  assume n: "0 < n"
  have k: "nat (max (int (length xs) - n) 0) = length xs - nat n"
    using n by linarith
  have "length (drop (length xs - nat n) xs)
          \<le> nat (int (length xs) - max (int (length xs) - n) 0)"
    using n by (simp add: max_def)
  then have "take (nat (int (length xs) - max (int (length xs) - n) 0))
               (drop (length xs - nat n) xs) = drop (length xs - nat n) xs"
    by (rule take_all)
  then show ?thesis
    using n by (simp add: jsSlice_def Let_def k)
qed

lemma jsSlice_init:
  "0 < n \<Longrightarrow> jsSlice xs 0 (Some (- n)) = take (length xs - nat n) xs"
proof -
  assume n: "0 < n"
  have k: "nat (max (int (length xs) - n) 0) = length xs - nat n"
    using n by linarith
  show ?thesis
    using n by (simp add: jsSlice_def Let_def k)
qed
lemma drawInt_range:
  assumes "0 \<le> rnd k" and "rnd k < 1" and "lo \<le> hi"
  shows "lo \<le> drawInt rnd k lo hi \<and> drawInt rnd k lo hi \<le> hi"
proof -
  let ?w = "real_of_int (hi - lo + 1)"
  have w: "0 < ?w"
    using assms(3) by simp
  have "0 \<le> rnd k * ?w"
    using assms(1) w by simp
  then have lower: "0 \<le> \<lfloor>rnd k * ?w\<rfloor>"
    by simp
  have "rnd k * ?w < ?w"
    using assms(2) w by simp
  then have "real_of_int \<lfloor>rnd k * ?w\<rfloor> < real_of_int (hi - lo + 1)"
    using of_int_floor_le [of "rnd k * ?w"] by linarith
  then have "\<lfloor>rnd k * ?w\<rfloor> < hi - lo + 1"
    by (simp only: of_int_less_iff)
  with lower show ?thesis
    by (simp add: drawInt_def)
qed

lemma HISTORY_LIMIT_drawn_range:
  assumes "0 \<le> rnd (k + 5)" and "rnd (k + 5) < 1"
  shows "5 \<le> historyLimitOf (Some (fst (getDynamicValues rnd k)))
         \<and> historyLimitOf (Some (fst (getDynamicValues rnd k))) \<le> 10"
  using drawInt_range [where rnd = rnd and k = "k + 5" and lo = 5 and hi = 10] assms
  by (simp add: historyLimitOf_def getDynamicValues_def)

lemma pruneHistory_zero_window:
  "historyLimitOf params = 0 \<Longrightarrow> hist \<noteq> [] \<Longrightarrow>
   pruneHistory hist params input = hist"
  by (simp add: pruneHistory_def jsSlice_def Let_def)

lemma pruneHistory_short:
  assumes "0 < historyLimitOf cp" and "int (length h) \<le> historyLimitOf cp"
  shows "pruneHistory h cp inp = h"
  using assms by (simp add: pruneHistory_def Let_def jsSlice_last)

lemma pruneHistory_long:
  assumes "0 < historyLimitOf cp" and "\<not> int (length h) \<le> historyLimitOf cp"
  shows "pruneHistory h cp inp
         = (let older = filter (isRelevant (keywordsOf inp))
                          (take (length h - nat (historyLimitOf cp)) h)
            in drop (length older - 2) older @ drop (length h - nat (historyLimitOf cp)) h)"
  using assms jsSlice_last [of 2 "filter (isRelevant (keywordsOf inp))
                          (take (length h - nat (historyLimitOf cp)) h)"]
  by (simp add: pruneHistory_def Let_def jsSlice_last jsSlice_init)

text \<open>
  Claim C5. For every history, every user input and every recency window \<open>N\<close> of at least
  one turn (the window is drawn per turn from 5 to 10, and is 8 before the first draw),
  pruning returns at most \<open>N + 2\<close> turns, and the turns returned are a subsequence of the
  history: they stand in their original relative order.
\<close>

theorem pruneHistory_bounded_in_order:
  assumes "0 < historyLimitOf params"
  shows "int (length (pruneHistory hist params input))
           \<le> historyLimitOf params + 2
         \<and> subseq (pruneHistory hist params input) hist"
proof (cases "int (length hist) \<le> historyLimitOf params")
  case True
  have "pruneHistory hist params input = hist"
    using assms True by (rule pruneHistory_short)
  then show ?thesis
    using True by simp
next
  case False
  define N where "N = nat (historyLimitOf params)"
  define older where
    "older = filter (isRelevant (keywordsOf input)) (take (length hist - N) hist)"
  define kept where "kept = drop (length older - 2) older"
  define recent where "recent = drop (length hist - N) hist"
  have eq: "pruneHistory hist params input = kept @ recent"
    using pruneHistory_long [OF assms False]
    by (simp add: Let_def N_def older_def kept_def recent_def)
  have l1: "length kept \<le> 2"
    by (simp add: kept_def)
  have l2: "length recent \<le> N"
    by (simp add: recent_def)
  have "length (kept @ recent) \<le> 2 + N"
    using l1 l2 unfolding length_append by linarith
  then have len: "int (length (kept @ recent)) \<le> historyLimitOf params + 2"
    using assms unfolding N_def by linarith
  have "subseq kept older"
    unfolding kept_def by (rule suffix_imp_subseq) (rule suffix_drop)
  moreover have "subseq older (take (length hist - N) hist)"
    unfolding older_def by (rule subseq_filter_left)
  ultimately have "subseq kept (take (length hist - N) hist)"
    by (rule subseq_order.trans)
  moreover have "subseq recent recent"
    by (rule subseq_order.order_refl)
  ultimately have "subseq (kept @ recent) (take (length hist - N) hist @ recent)"
    by (rule list_emb_append_mono)
  then have sub: "subseq (kept @ recent) hist"
    unfolding recent_def by (simp only: append_take_drop_id)
  show ?thesis
    unfolding eq using len sub by (rule conjI)
qed

theorem pruneHistory_bounded_in_order_witness:
  "int (length (pruneHistory sampleHistory windowOfFive ''more on EVOLUTION please'')) \<le> 5 + 2
   \<and> subseq (pruneHistory sampleHistory windowOfFive ''more on EVOLUTION please'') sampleHistory
   \<and> pruneHistory sampleHistory windowOfFive ''more on EVOLUTION please''
     = [(''user'', ''Tell me about evolution''), (''user'', ''And evolution of robots?''),
        (''assistant'', ''Even more fun.''), (''user'', ''one''), (''assistant'', ''two''),
        (''user'', ''three'')]"
proof -
  have N: "historyLimitOf windowOfFive = 5"
    by (simp add: historyLimitOf_def windowOfFive_def)
  have v: "pruneHistory sampleHistory windowOfFive ''more on EVOLUTION please''
     = [(''user'', ''Tell me about evolution''), (''user'', ''And evolution of robots?''),
        (''assistant'', ''Even more fun.''), (''user'', ''one''), (''assistant'', ''two''),
        (''user'', ''three'')]"
    by code_simp
  show ?thesis
    using pruneHistory_bounded_in_order
            [where params = windowOfFive and hist = sampleHistory
               and input = "''more on EVOLUTION please''"]
          N v
    by simp
qed

section \<open>Properties of the response finalizer\<close>

lemma selectRandomPromo_empty: "fst (selectRandomPromo [] opts rnd k) = None"
  by (auto simp: selectRandomPromo_def jsIndex_def jsRem_def)

lemma selectRandomQuip_empty: "fst (selectRandomQuip [] opts rnd k) = None"
  by (auto simp: selectRandomQuip_def jsIndex_def jsRem_def)

lemma BOOK_PROMOS_disabled:
  "book cfg = None \<or> \<not> useBookPromos cfg \<Longrightarrow> BOOK_PROMOS cfg sample = []"
  by (auto simp: BOOK_PROMOS_def generateBookPromos_def split: option.splits)

lemma FUNNY_QUIPS_disabled: "\<not> useFunnyQuips cfg \<Longrightarrow> FUNNY_QUIPS cfg sample = []"
  by (simp add: FUNNY_QUIPS_def)

lemma finalizeResponse_promo_undefined:
  assumes "\<not> skipsEmbellishment response"
    and "hasBookTrigger response userText \<or> rnd k < bookPromoChance"
  shows "fst (finalizeResponse [] quips rnd k response userText)
         = response @ [NL, NL] @ ''undefined''"
  using assms
  by (auto simp: finalizeResponse_def selectRandomPromo_def noOptions_def isDeterministic_def
      jsIndex_def randomIndex_def interpolate_def)

lemma finalizeResponse_quip_undefined:
  assumes "\<not> skipsEmbellishment response"
    and "\<not> hasBookTrigger response userText"
    and "\<not> rnd k < bookPromoChance"
    and "rnd (Suc k) < 0.15"
  shows "fst (finalizeResponse promos [] rnd k response userText)
         = response @ [NL, NL] @ ''*undefined*''"
  using assms
  by (simp add: finalizeResponse_def selectRandomQuip_def noOptions_def isDeterministic_def
      jsIndex_def randomIndex_def interpolate_def)

text \<open>
  Claim C7. A reply shorter than 30 characters, or one that contains \<open>apologize\<close> or
  \<open>not sure\<close>, is returned unchanged by the finalizer, and no draw is made: whatever the
  user input, the promo and quip lists and the random source are, nothing is appended.
\<close>

theorem finalizeResponse_skips_short_or_apologetic:
  assumes "length response < 30 \<or> includesStr response ''apologize''
           \<or> includesStr response ''not sure''"
  shows "finalizeResponse promos quips rnd k response userText = (response, k)"
  using assms by (auto simp: finalizeResponse_def skipsEmbellishment_def)

theorem finalizeResponse_skips_short_or_apologetic_witness:
  "length ''Sure thing.'' < 30
   \<and> finalizeResponse [''Read my book.''] [''A quip.''] (\<lambda>k. 0) 0
         ''Sure thing.'' ''tell me about your book'' = (''Sure thing.'', 0)
   \<and> includesStr ''I apologize, the book is about robots and code.'' ''apologize''
   \<and> finalizeResponse [''Read my book.''] [''A quip.''] (\<lambda>k. 0) 0
         ''I apologize, the book is about robots and code.'' ''tell me about your book''
       = (''I apologize, the book is about robots and code.'', 0)"
  using finalizeResponse_skips_short_or_apologetic
          [of "''Sure thing.''" "[''Read my book.'']" "[''A quip.'']" "\<lambda>k. 0" 0
              "''tell me about your book''"]
        finalizeResponse_skips_short_or_apologetic
          [of "''I apologize, the book is about robots and code.''" "[''Read my book.'']"
              "[''A quip.'']" "\<lambda>k. 0" 0 "''tell me about your book''"]
  by simp

text \<open>
  Claim C9. When book promos are disabled (no book, or \<open>useBookPromos\<close> off) the promo
  list is empty and \<open>selectRandomPromo\<close> returns \<open>undefined\<close>, seeded or not; a reply
  that passes the embellishment gate and gets the promotional aside then ends in the
  literal text \<open>undefined\<close>. The same holds for the quips when \<open>useFunnyQuips\<close> is off:
  the reply ends in \<open>*undefined*\<close>.
\<close>

theorem disabled_asides_append_undefined:
  "(book cfg = None \<or> \<not> useBookPromos cfg \<longrightarrow>
      BOOK_PROMOS cfg sample = []
      \<and> fst (selectRandomPromo (BOOK_PROMOS cfg sample) opts rnd' k') = None
      \<and> (\<not> skipsEmbellishment response
           \<and> (hasBookTrigger response userText \<or> rnd k < bookPromoChance) \<longrightarrow>
         fst (finalizeResponse (BOOK_PROMOS cfg sample) quips rnd k response userText)
         = response @ [NL, NL] @ ''undefined''))
   \<and> (\<not> useFunnyQuips cfg \<longrightarrow>
      FUNNY_QUIPS cfg sample = []
      \<and> fst (selectRandomQuip (FUNNY_QUIPS cfg sample) opts rnd' k') = None
      \<and> (\<not> skipsEmbellishment response \<and> \<not> hasBookTrigger response userText
           \<and> \<not> rnd k < bookPromoChance \<and> rnd (Suc k) < 0.15 \<longrightarrow>
         fst (finalizeResponse promos (FUNNY_QUIPS cfg sample) rnd k response userText)
         = response @ [NL, NL] @ ''*undefined*''))"
  using BOOK_PROMOS_disabled [of cfg sample] FUNNY_QUIPS_disabled [of cfg sample]
    selectRandomPromo_empty [of opts rnd' k'] selectRandomQuip_empty [of opts rnd' k']
    finalizeResponse_promo_undefined [of response userText rnd k quips]
    finalizeResponse_quip_undefined [of response userText rnd k promos]
  by auto

theorem disabled_asides_append_undefined_witness:
  "fst (finalizeResponse (BOOK_PROMOS cfgAsidesOff sampleContent) [] (\<lambda>k. 1 / 2) 0
          ''I enjoy writing code for fun and profit!'' ''what do you do?'')
     = ''I enjoy writing code for fun and profit!'' @ [NL, NL] @ ''undefined''
   \<and> fst (finalizeResponse [] (FUNNY_QUIPS cfgAsidesOff sampleContent) (\<lambda>k. if k = 0 then 1 / 2 else 1 / 10) 0
          ''The weather is lovely in Portland today.'' ''how is the weather?'')
     = ''The weather is lovely in Portland today.'' @ [NL, NL] @ ''*undefined*''"
proof -
  have gate1: "\<not> skipsEmbellishment ''I enjoy writing code for fun and profit!''"
    by (simp add: skipsEmbellishment_def)
  have trig1: "hasBookTrigger ''I enjoy writing code for fun and profit!'' ''what do you do?''"
    by (simp add: hasBookTrigger_def bookTriggers_def toLowerCase_def lowerChar_def)
  have gate2: "\<not> skipsEmbellishment ''The weather is lovely in Portland today.''"
    by (simp add: skipsEmbellishment_def)
  have trig2: "\<not> hasBookTrigger ''The weather is lovely in Portland today.'' ''how is the weather?''"
    by (simp add: hasBookTrigger_def bookTriggers_def toLowerCase_def lowerChar_def)
  have off: "\<not> useBookPromos cfgAsidesOff" "\<not> useFunnyQuips cfgAsidesOff"
    by (simp_all add: cfgAsidesOff_def)
  have d2: "\<not> (if (0::nat) = 0 then 1 / 2 else 1 / 10 :: real) < bookPromoChance"
    by (simp add: bookPromoChance_def)
  have d3: "(if Suc 0 = 0 then 1 / 2 else 1 / 10 :: real) < 0.15"
    by simp
  have promo: "fst (finalizeResponse (BOOK_PROMOS cfgAsidesOff sampleContent) [] (\<lambda>k. 1 / 2) 0
          ''I enjoy writing code for fun and profit!'' ''what do you do?'')
     = ''I enjoy writing code for fun and profit!'' @ [NL, NL] @ ''undefined''"
    using disabled_asides_append_undefined
            [where cfg = cfgAsidesOff and sample = sampleContent and opts = noOptions
               and rnd' = "\<lambda>k. 1 / 2" and k' = 0 and k = 0
               and response = "''I enjoy writing code for fun and profit!''"
               and userText = "''what do you do?''" and rnd = "\<lambda>k. 1 / 2"
               and quips = "[]" and promos = "[]"]
          gate1 trig1 off
    by blast
  have quip: "fst (finalizeResponse [] (FUNNY_QUIPS cfgAsidesOff sampleContent)
          (\<lambda>k. if k = 0 then 1 / 2 else 1 / 10) 0
          ''The weather is lovely in Portland today.'' ''how is the weather?'')
     = ''The weather is lovely in Portland today.'' @ [NL, NL] @ ''*undefined*''"
    using disabled_asides_append_undefined
            [where cfg = cfgAsidesOff and sample = sampleContent and opts = noOptions
               and rnd' = "\<lambda>k. 1 / 2" and k' = 0 and k = 0
               and response = "''The weather is lovely in Portland today.''"
               and userText = "''how is the weather?''"
               and rnd = "\<lambda>k. if k = 0 then 1 / 2 else 1 / 10"
               and quips = "[]" and promos = "[]"]
          gate2 trig2 d2 d3 off
    by blast
  show ?thesis
    using promo quip by (rule conjI)
qed

section \<open>Properties of the chat component\<close>

lemma genSeq_ui_addMessage [simp]: "genSeq (fst (ui_addMessage r c st)) = genSeq st"
  by (simp add: ui_addMessage_def)

lemma genSeq_ui_updateMessage [simp]: "genSeq (ui_updateMessage el c b st) = genSeq st"
  by (simp add: ui_updateMessage_def)

lemma genSeq_addMessage [simp]: "genSeq (addMessage r c st) = genSeq st"
  by (simp add: addMessage_def)

lemma genSeq_onUpdate [simp]: "genSeq (snd (onUpdate rq ev st)) = genSeq st"
  by (simp add: onUpdate_def Let_def)

lemma genSeq_runCallbacks [simp]: "genSeq (snd (runCallbacks rq evs st)) = genSeq st"
proof (induction evs arbitrary: rq st)
  case Nil
  show ?case by simp
next
  case (Cons ev evs)
  obtain rq' st' where step: "onUpdate rq ev st = (rq', st')"
    by (cases "onUpdate rq ev st")
  then have "genSeq st' = genSeq st"
    using genSeq_onUpdate [of rq ev st] by simp
  with Cons.IH [of rq' st'] step show ?case
    by simp
qed

lemma genSeq_finishGeneration [simp]:
  "genSeq (finishGeneration cfg sample rq result rnd b st) = genSeq st"
  by (simp add: finishGeneration_def Let_def)

lemma runCallbacks_genSeq: "runCallbacks rq evs st = (rq', st') \<Longrightarrow> genSeq st' = genSeq st"
  using genSeq_runCallbacks [of rq evs st] by simp

lemma genSeq_startGeneration:
  "genSeq (snd (startGeneration env u el st)) = Suc (genSeq st)
   \<and> req_genSeq (fst (startGeneration env u el st)) = Suc (genSeq st)"
  by (simp add: startGeneration_def Let_def)

lemma genSeq_generateResponse:
  "genSeq (snd (generateResponse cfg sample env u el st)) = Suc (genSeq st)"
proof -
  obtain rq st3 where start: "startGeneration env u el st = (rq, st3)"
    by (cases "startGeneration env u el st")
  then have g3: "genSeq st3 = Suc (genSeq st)"
    using genSeq_startGeneration [of env u el st] by simp
  obtain rq' st4 where run: "runCallbacks rq (streamed env) st3 = (rq', st4)"
    by (cases "runCallbacks rq (streamed env) st3")
  then have "genSeq st4 = Suc (genSeq st)"
    using runCallbacks_genSeq [OF run] g3 by simp
  then show ?thesis
    using start run by (simp add: generateResponse_def split: gen_outcome.splits)
qed

lemma genSeq_handleSubmit: "genSeq st \<le> genSeq (snd (handleSubmit cfg sample env st))"
proof -
  let ?u = "trim (rawInput env)"
  let ?st1 = "fst (ui_addMessage ''user'' ?u (addMessage ''user'' ?u st))"
  have g1: "genSeq ?st1 = genSeq st"
    by simp
  show ?thesis
  proof (cases "?u = [] \<or> trim (toLowerCase ?u) \<in> set greetings \<or> \<not> pipeLoaded ?st1")
    case True
    then show ?thesis
      using g1 by (auto simp: handleSubmit_def Let_def split: option.splits)
  next
    case False
    obtain st2 el where add: "ui_addMessage ''assistant'' THINKING_DOTS
        (?st1\<lparr>controlsEnabled := False, status := ''Thinking'' @ ELLIPSIS\<rparr>) = (st2, el)"
      by (cases "ui_addMessage ''assistant'' THINKING_DOTS
        (?st1\<lparr>controlsEnabled := False, status := ''Thinking'' @ ELLIPSIS\<rparr>)")
    then have g2: "genSeq st2 = genSeq st"
      by (auto simp: ui_addMessage_def addMessage_def)
    obtain err st3 where gen: "generateResponse cfg sample env ?u el st2 = (err, st3)"
      by (cases "generateResponse cfg sample env ?u el st2")
    then have g3: "genSeq st3 = Suc (genSeq st)"
      using genSeq_generateResponse [of cfg sample env ?u el st2] g2 by simp
    show ?thesis
      using False add gen g3
      by (cases err) (simp_all add: handleSubmit_def Let_def)
  qed
qed

lemma genSeq_perform: "genSeq st \<le> genSeq (perform cfg sample st a)"
  by (cases a)
     (simp_all add: perform_def cancelGeneration_def clearChat_def clearHistory_def
        ui_clearMessages_def genSeq_handleSubmit genSeq_startGeneration)

lemma genSeq_activities: "genSeq st \<le> genSeq (foldl (perform cfg sample) st acts)"
proof (induction acts arbitrary: st)
  case Nil
  show ?case by simp
next
  case (Cons a acts)
  have "genSeq st \<le> genSeq (perform cfg sample st a)"
    by (rule genSeq_perform)
  also have "\<dots> \<le> genSeq (foldl (perform cfg sample) (perform cfg sample st a) acts)"
    by (rule Cons.IH)
  finally show ?case
    by simp
qed

lemma superseded_callback: "genSeq st \<noteq> req_genSeq rq \<Longrightarrow> onUpdate rq ev st = (rq, st)"
  by (simp add: onUpdate_def)

lemma superseded_finish:
  "genSeq st \<noteq> req_genSeq rq \<Longrightarrow> finishGeneration cfg sample rq result rnd b st = st"
  by (simp add: finishGeneration_def)

text \<open>
  Claim C2. A request is superseded when the engine's sequence number has moved past the
  one the request took (a newer request started, or the generation was cancelled). From
  then on, and after whatever else happens to the component (requests starting, whole
  submissions, cancellations, clearing, other callbacks), every invocation of the
  request's streaming callback and its handling of the final result return at the
  sequence-number test: the whole state, and with it the conversation history and the
  rendered messages, is unchanged, and so are the variables of the request's closure.
\<close>

theorem superseded_request_is_invisible:
  assumes "req_genSeq rq < genSeq st"
  shows "onUpdate rq ev (foldl (perform cfg sample) st acts)
           = (rq, foldl (perform cfg sample) st acts)
         \<and> finishGeneration cfg sample rq result rnd autoScroll (foldl (perform cfg sample) st acts)
           = foldl (perform cfg sample) st acts"
proof -
  have "req_genSeq rq < genSeq (foldl (perform cfg sample) st acts)"
    using assms genSeq_activities [of st cfg sample acts] by linarith
  then have "genSeq (foldl (perform cfg sample) st acts) \<noteq> req_genSeq rq"
    by simp
  then show ?thesis
    by (simp add: superseded_callback superseded_finish)
qed

theorem superseded_request_is_invisible_witness:
  "req_genSeq staleRequest < genSeq busyState
   \<and> onUpdate staleRequest lateEvent (foldl (perform cfgStrict sampleContent) busyState [Start helloEnv ''third question'' 6, Cancel, ClearChat])
     = (staleRequest, foldl (perform cfgStrict sampleContent) busyState [Start helloEnv ''third question'' 6, Cancel, ClearChat])
   \<and> finishGeneration cfgStrict sampleContent staleRequest lateResult (\<lambda>k. 0) True
         (foldl (perform cfgStrict sampleContent) busyState [Start helloEnv ''third question'' 6, Cancel, ClearChat])
     = foldl (perform cfgStrict sampleContent) busyState [Start helloEnv ''third question'' 6, Cancel, ClearChat]
   \<and> messages (snd (onUpdate (staleRequest\<lparr>req_genSeq := 2\<rparr>) lateEvent busyState))
     = [(0, ''assistant'', ''Loaded.''), (1, ''user'', ''first question''),
        (2, ''assistant'', ''partial answer''), (3, ''user'', ''second question''),
        (4, ''assistant'', THINKING_DOTS)]"
proof -
  have stale: "req_genSeq staleRequest < genSeq busyState"
    by (simp add: staleRequest_def busyState_def)
  have live: "messages (snd (onUpdate (staleRequest\<lparr>req_genSeq := 2\<rparr>) lateEvent busyState))
     = [(0, ''assistant'', ''Loaded.''), (1, ''user'', ''first question''),
        (2, ''assistant'', ''partial answer''), (3, ''user'', ''second question''),
        (4, ''assistant'', THINKING_DOTS)]"
    by (simp add: onUpdate_def staleRequest_def busyState_def lateEvent_def nextLatestText_def
        stripPrompt_def stripLeadingDots_def trim_def isSpace_def ui_updateMessage_def Let_def)
  show ?thesis
    using superseded_request_is_invisible
            [where rq = staleRequest and st = busyState and ev = lateEvent
               and cfg = cfgStrict and sample = sampleContent and acts = "[Start helloEnv ''third question'' 6, Cancel, ClearChat]"
               and result = lateResult and rnd = "\<lambda>k. 0" and autoScroll = True, OF stale]
          stale live
    by simp
qed

lemma floor_index_in_range:
  assumes "0 \<le> r" and "r < 1" and "0 < n"
  shows "0 \<le> \<lfloor>r * real n\<rfloor> \<and> \<lfloor>r * real n\<rfloor> < int n"
proof -
  have "0 \<le> r * real n"
    using assms by simp
  then have lower: "0 \<le> \<lfloor>r * real n\<rfloor>"
    by simp
  have "r * real n < real n"
    using assms by simp
  then have "\<lfloor>r * real n\<rfloor> < int n"
    by (simp add: floor_less_iff)
  with lower show ?thesis
    by simp
qed

lemma canned_response_defined:
  assumes "0 \<le> r" and "r < 1"
  shows "\<exists>response. response \<in> set (cannedResponses cfg)
           \<and> jsIndex (cannedResponses cfg) (Some \<lfloor>r * real (length (cannedResponses cfg))\<rfloor>)
             = Some response"
proof -
  have n: "0 < length (cannedResponses cfg)"
    by (simp add: cannedResponses_def)
  let ?i = "\<lfloor>r * real (length (cannedResponses cfg))\<rfloor>"
  have idx: "0 \<le> ?i \<and> ?i < int (length (cannedResponses cfg))"
    using assms n by (rule floor_index_in_range)
  then have "nat ?i < length (cannedResponses cfg)"
    by linarith
  then have "cannedResponses cfg ! nat ?i \<in> set (cannedResponses cfg)"
    by (rule nth_mem)
  then show ?thesis
    using idx by (simp add: jsIndex_def)
qed

lemma greeting_not_empty:
  "trim (toLowerCase u) \<in> set greetings \<Longrightarrow> u \<noteq> []"
  by (auto simp: greetings_def toLowerCase_def trim_def)

text \<open>
  Claim C10. When the lowercased, trimmed input is one of the six greetings, the submit
  handler appends the user turn and one of the three canned responses to the history and
  to the rendered messages, and returns: the record of collaborator calls is unchanged, so
  neither prompt assembly nor the inference adapter nor the response embellisher was
  invoked; the sequence number, the parameters and the status are untouched as well. The
  draw that picks the response is a value of \<open>Math.random\<close>, in the unit interval.
\<close>

theorem greeting_skips_generation:
  assumes "trim (toLowerCase (trim (rawInput env))) \<in> set greetings"
    and "0 \<le> cannedDraw env" and "cannedDraw env < 1"
  shows "\<exists>response. response \<in> set (cannedResponses cfg)
           \<and> handleSubmit cfg sample env st
             = (None, st\<lparr>history := history st @ [(''user'', trim (rawInput env)),
                                                    (''assistant'', response)],
                         messages := messages st
                            @ [(nextElement st, ''user'', trim (rawInput env)),
                               (Suc (nextElement st), ''assistant'', response)],
                         nextElement := Suc (Suc (nextElement st)),
                         scrollRequests := Suc (Suc (scrollRequests st))\<rparr>)
           \<and> calls (snd (handleSubmit cfg sample env st)) = calls st"
proof -
  obtain response where r: "response \<in> set (cannedResponses cfg)"
    "jsIndex (cannedResponses cfg)
       (Some \<lfloor>cannedDraw env * real (length (cannedResponses cfg))\<rfloor>) = Some response"
    using canned_response_defined [OF assms(2,3)] by blast
  have ne: "trim (rawInput env) \<noteq> []"
    using assms(1) by (rule greeting_not_empty)
  have "handleSubmit cfg sample env st
             = (None, st\<lparr>history := history st @ [(''user'', trim (rawInput env)),
                                                    (''assistant'', response)],
                         messages := messages st
                            @ [(nextElement st, ''user'', trim (rawInput env)),
                               (Suc (nextElement st), ''assistant'', response)],
                         nextElement := Suc (Suc (nextElement st)),
                         scrollRequests := Suc (Suc (scrollRequests st))\<rparr>)"
    using assms(1) ne r(2)
    by (simp add: handleSubmit_def Let_def ui_addMessage_def addMessage_def)
  with r(1) show ?thesis
    by auto
qed

theorem greeting_skips_generation_witness:
  "calls (snd (handleSubmit cfgStrict sampleContent helloEnv idleState)) = calls idleState
   \<and> (\<exists>response. response \<in> set (cannedResponses cfgStrict)
         \<and> history (snd (handleSubmit cfgStrict sampleContent helloEnv idleState))
           = [(''user'', ''Hello''), (''assistant'', response)])
   \<and> calls (snd (handleSubmit cfgStrict sampleContent (helloEnv\<lparr>rawInput := ''Hello there''\<rparr>)
                     idleState))
     = [PromptAssembly, InferenceAdapter, ResponseEmbellisher]"
proof -
  have greeting: "trim (toLowerCase (trim (rawInput helloEnv))) \<in> set greetings"
    by (simp add: helloEnv_def trim_def toLowerCase_def lowerChar_def isSpace_def greetings_def)
  have draw: "0 \<le> cannedDraw helloEnv" "cannedDraw helloEnv < 1"
    by (simp_all add: helloEnv_def)
  have input: "trim (rawInput helloEnv) = ''Hello''"
    by (simp add: helloEnv_def trim_def isSpace_def)
  have generated: "calls (snd (handleSubmit cfgStrict sampleContent
                     (helloEnv\<lparr>rawInput := ''Hello there''\<rparr>) idleState))
     = [PromptAssembly, InferenceAdapter, ResponseEmbellisher]"
    by (simp add: handleSubmit_def helloEnv_def idleState_def trim_def toLowerCase_def
        lowerChar_def isSpace_def greetings_def ui_addMessage_def addMessage_def Let_def
        generateResponse_def startGeneration_def finishGeneration_def ui_updateMessage_def)
  show ?thesis
    using greeting_skips_generation
            [where env = helloEnv and cfg = cfgStrict and sample = sampleContent
               and st = idleState, OF greeting draw]
          input generated
    by (auto simp: idleState_def)
qed

end
